theory Spec2Isabelle
  imports Main
begin

section \<open>Data model of the enrollment mutation\<close>

text \<open>
  The development embeds \<^verbatim>\<open>enrollClass\<close> of
  \<^verbatim>\<open>src/server/graphql/mutation/enroll-class.ts\<close>. Identifiers handed in by the
  caller (user, student, class and promotion ids) are strings. A nullable value of the
  source is an \<open>option\<close>; JavaScript truthiness of such a value (\<^verbatim>\<open>!req.userId\<close>,
  \<^verbatim>\<open>args.promotionId && ...\<close>) is \<open>truthy\<close>: absent and the empty string are false.
\<close>

type_synonym ident = string

fun truthy :: "ident option \<Rightarrow> bool" where
  "truthy None = False"
| "truthy (Some s) = (s \<noteq> [])"

text \<open>
  Everything the mutation can throw. \<open>Unauthorized\<close> and \<open>BadRequest\<close> are the Boom
  errors of the source with their messages; \<open>EmptyResultError\<close> is what
  \<^verbatim>\<open>rejectOnEmpty: true\<close> raises when the student lookup finds no row (the "not
  found" of the interface); \<open>TransactionFinished\<close> is the error of the store's
  transaction object when it is asked to roll back after it has finished; \<open>Failure\<close>
  stands for a rejection coming from a collaborator (store, gateway, event bus).
\<close>

datatype error =
    Unauthorized string
  | BadRequest string
  | EmptyResultError
  | TransactionFinished string
  | Failure string

record course =
  courseName :: string
  level :: int
  isTrial :: bool
  isRegular :: bool

record klass =
  klassId :: ident
  course :: course

record account =
  accountId :: ident
  firstName :: string
  paid :: bool
  refererId :: "ident option"

text \<open>
  A student row as the mutation sees it: \<^verbatim>\<open>student.id\<close>, \<^verbatim>\<open>student.parentId\<close> and the
  loaded association \<^verbatim>\<open>student.parent\<close>, the purchasing account.
\<close>

record student =
  studentKey :: ident
  parentId :: ident
  parent :: account

record promotion =
  promoId :: ident
  promoCode :: string
  counts :: int

datatype CreditType = Purchase | Referral

record creditDetails =
  reason :: string
  createdBy :: string
  attributionUserId :: ident
  attributionClassId :: ident

record creditRow =
  creditKey :: nat
  cents :: int
  creditUserId :: ident
  creditType :: CreditType
  details :: creditDetails

record enrollment =
  enrStudentId :: ident
  enrClassId :: ident
  source :: string
  campaign :: string
  enrPromotionId :: "ident option"
  enrCreditId :: "nat option"

type_synonym saleDetails = string

record saleRecord =
  recordDetails :: saleDetails
  saleEnrollments :: "enrollment list"

text \<open>The tables of the persistent store that the mutation reads or writes.\<close>

record db =
  studentRows :: "student list"
  classRows :: "klass list"
  promotionRows :: "promotion list"
  creditRows :: "creditRow list"
  enrollmentRows :: "enrollment list"
  transactionRows :: "saleRecord list"

text \<open>
  One call of the payment gateway: \<^verbatim>\<open>sale(priceInCents / 100, nonce, orderId)\<close>. The
  amount is recorded in cents, the numerator of the quotient the source passes on.
\<close>

record charge =
  amountCents :: int
  nonce :: "string option"
  orderId :: string

text \<open>
  The world outside the request: the committed store, the calls the gateway has
  received and the events the bus has received.
\<close>

record world =
  store :: db
  gatewayCalls :: "charge list"
  busEvents :: "enrollment list list"

text \<open>
  While a transaction is open the request also owns \<open>staged\<close>, the store as its own
  transaction sees it (every write with \<^verbatim>\<open>txOpts\<close> goes there), and \<open>finished\<close>, the
  state of the transaction object.
\<close>

record session = world +
  staged :: db
  finished :: bool

record request =
  userId :: "ident option"
  utmSource :: "string option"
  utmCampaign :: "string option"
  classIds :: "ident list"
  studentId :: ident
  credit :: int
  promotionId :: "ident option"
  paymentMethodNonce :: "string option"
  wholeSeries :: bool

text \<open>The awaited operations of the store and of the bus that can reject.\<close>

datatype step =
    BeginTransaction
  | IncrementCounts
  | CreatePurchaseCredit
  | UpdatePaid
  | CreateReferralCredit
  | BulkCreate
  | CreateTransaction
  | AddEnrollments
  | Commit
  | EmitEvent
  | Rollback

text \<open>
  What \<^verbatim>\<open>enrollClass\<close> imports and this repository's sources under study do not
  contain is a parameter: the pricing functions \<^verbatim>\<open>getTotalPriceInCents\<close> and
  \<^verbatim>\<open>applyPromo\<close> (its \<^verbatim>\<open>.result\<close>), the promotion lookup
  \<^verbatim>\<open>getPromotionIfQualified\<close> (a promotion, null, or a rejection), the account's
  \<^verbatim>\<open>getBalanceInCents\<close>, the gateway's \<^verbatim>\<open>sale\<close>, the constant
  \<^verbatim>\<open>ReferralCredits.purchase\<close>, and \<open>fault\<close>, which says which awaited store or bus
  operation rejects and with what.
\<close>

record env =
  getTotalPriceInCents :: "klass list \<Rightarrow> bool \<Rightarrow> int"
  applyPromo :: "int \<Rightarrow> promotion \<Rightarrow> bool \<Rightarrow> bool \<Rightarrow> int"
  getPromotionIfQualified :: "db \<Rightarrow> ident \<Rightarrow> account \<Rightarrow> course \<Rightarrow> error + promotion option"
  getBalanceInCents :: "db \<Rightarrow> account \<Rightarrow> error + int"
  sale :: "int \<Rightarrow> string option \<Rightarrow> string \<Rightarrow> error + saleDetails"
  referralCreditsPurchase :: int
  fault :: "step \<Rightarrow> error option"

section \<open>Sequencing of fallible, stateful steps\<close>

text \<open>
  An awaited step either throws, which ends the \<^verbatim>\<open>try\<close> block, or hands its value to
  the rest. The state is kept in both cases: what the gateway has received is not undone
  by a later throw.
\<close>

definition thenE ::
  "('s \<Rightarrow> (error + 'a) \<times> 's) \<Rightarrow> ('a \<Rightarrow> 's \<Rightarrow> (error + 'b) \<times> 's) \<Rightarrow> 's \<Rightarrow> (error + 'b) \<times> 's" where
  "thenE m f s = (case m s of (Inl e, s') \<Rightarrow> (Inl e, s') | (Inr x, s') \<Rightarrow> f x s')"

section \<open>Lookups and validation (lines 88 to 113)\<close>

definition getStudent :: "db \<Rightarrow> ident \<Rightarrow> ident \<Rightarrow> error + student" where
  "getStudent d sid uid =
     (case find (\<lambda>s. studentKey s = sid \<and> parentId s = uid) (studentRows d) of
        None \<Rightarrow> Inl EmptyResultError
      | Some s \<Rightarrow> Inr s)"

definition findAllClasses :: "db \<Rightarrow> ident list \<Rightarrow> klass list" where
  "findAllClasses d ids = filter (\<lambda>k. klassId k \<in> set ids) (classRows d)"

definition validate :: "env \<Rightarrow> request \<Rightarrow> world \<Rightarrow> error + (ident \<times> student \<times> klass list)" where
  "validate en req w =
     (case userId req of
        None \<Rightarrow> Inl (Unauthorized ''You must login first'')
      | Some uid \<Rightarrow>
          if uid = [] then Inl (Unauthorized ''You must login first'')
          else
            (case getStudent (store w) (studentId req) uid of
               Inl e \<Rightarrow> Inl e
             | Inr st \<Rightarrow>
                 (case findAllClasses (store w) (classIds req) of
                    [] \<Rightarrow> Inl (BadRequest ''invalid classIds'')
                  | k # ks \<Rightarrow>
                      if credit req > 0 then
                        (case getBalanceInCents en (store w) (parent st) of
                           Inl e \<Rightarrow> Inl e
                         | Inr balanceInCents \<Rightarrow>
                             if credit req > balanceInCents
                             then Inl (BadRequest ''you do not have enough credit'')
                             else Inr (uid, st, k # ks))
                      else Inr (uid, st, k # ks))))"

section \<open>Main class and purchase shape (lines 115 to 133)\<close>

fun lowestLevel :: "klass \<Rightarrow> klass list \<Rightarrow> klass" where
  "lowestLevel mainKlass [] = mainKlass"
| "lowestLevel mainKlass (k # ks) =
     lowestLevel (if level (course k) < level (course mainKlass) then k else mainKlass) ks"

fun findMainKlass :: "klass list \<Rightarrow> klass option" where
  "findMainKlass [] = None"
| "findMainKlass (k # ks) =
     Some (if length (k # ks) > 1 then lowestLevel k (k # ks) else k)"

definition isBundle :: "klass list \<Rightarrow> bool \<Rightarrow> bool" where
  "isBundle klasses ws = (length klasses > 1 \<and> \<not> ws)"

section \<open>The steps inside the transaction (lines 141 to 242)\<close>

text \<open>
  The two calls into the pricing module: lines 131 to 133 and lines 155 to 158. Both
  receive the \<^verbatim>\<open>wholeSeries\<close> flag; the promotion also receives \<^verbatim>\<open>isBundle\<close>.
\<close>

definition totalPrice :: "env \<Rightarrow> request \<Rightarrow> klass list \<Rightarrow> int" where
  "totalPrice en req klasses = getTotalPriceInCents en klasses (wholeSeries req)"

definition promoPrice :: "env \<Rightarrow> request \<Rightarrow> klass list \<Rightarrow> int \<Rightarrow> promotion \<Rightarrow> int" where
  "promoPrice en req klasses priceInCents appliedPromo =
     applyPromo en priceInCents appliedPromo (isBundle klasses (wholeSeries req)) (wholeSeries req)"

definition incrementCounts :: "ident \<Rightarrow> db \<Rightarrow> db" where
  "incrementCounts pid d =
     d\<lparr>promotionRows :=
         map (\<lambda>p. if promoId p = pid then p\<lparr>counts := counts p + 1\<rparr> else p) (promotionRows d)\<rparr>"

definition promoStep ::
  "env \<Rightarrow> request \<Rightarrow> student \<Rightarrow> klass \<Rightarrow> klass list \<Rightarrow> int \<Rightarrow> session
     \<Rightarrow> (error + (int \<times> promotion option)) \<times> session" where
  "promoStep en req st mainKlass klasses priceInCents s =
     (case promotionId req of
        Some pid \<Rightarrow>
          if priceInCents > 0 \<and> pid \<noteq> [] then
            (case getPromotionIfQualified en (store s) pid (parent st) (course mainKlass) of
               Inl e \<Rightarrow> (Inl e, s)
             | Inr None \<Rightarrow> (Inl (BadRequest (''promotion '' @ pid @ '' is not valid'')), s)
             | Inr (Some appliedPromo) \<Rightarrow>
                 (case fault en IncrementCounts of
                    Some e \<Rightarrow> (Inl e, s)
                  | None \<Rightarrow>
                      (Inr (promoPrice en req klasses priceInCents appliedPromo,
                            Some appliedPromo),
                       s\<lparr>staged := incrementCounts (promoId appliedPromo) (staged s)\<rparr>)))
          else (Inr (priceInCents, None), s)
      | None \<Rightarrow> (Inr (priceInCents, None), s))"

text \<open>
  Modelled from the spec: \<^verbatim>\<open>applyCredit\<close> of \<^verbatim>\<open>shared/pricing\<close> is not among the
  sources. The specification gives its algorithm: consumed = min(requested, price);
  new price = price - consumed.
\<close>

record applied =
  used :: int
  result :: int

definition applyCredit :: "int \<Rightarrow> int \<Rightarrow> applied" where
  "applyCredit priceInCents creditInCents =
     \<lparr>used = min creditInCents priceInCents,
      result = priceInCents - min creditInCents priceInCents\<rparr>"

definition purchaseCredit :: "ident \<Rightarrow> klass \<Rightarrow> int \<Rightarrow> db \<Rightarrow> creditRow" where
  "purchaseCredit uid mainKlass usedCents d =
     \<lparr>creditKey = length (creditRows d),
      cents = - usedCents,
      creditUserId = uid,
      creditType = Purchase,
      details = \<lparr>reason = ''Purchase '' @ courseName (course mainKlass),
                 createdBy = ''webportal'',
                 attributionUserId = uid,
                 attributionClassId = klassId mainKlass\<rparr>\<rparr>"

definition creditStep ::
  "env \<Rightarrow> request \<Rightarrow> ident \<Rightarrow> klass \<Rightarrow> int \<Rightarrow> session
     \<Rightarrow> (error + (int \<times> creditRow option)) \<times> session" where
  "creditStep en req uid mainKlass priceInCents s =
     (if priceInCents > 0 \<and> credit req > 0 then
        (case fault en CreatePurchaseCredit of
           Some e \<Rightarrow> (Inl e, s)
         | None \<Rightarrow>
             (let app = applyCredit priceInCents (credit req);
                  usedCredit = purchaseCredit uid mainKlass (used app) (staged s)
              in (Inr (result app, Some usedCredit),
                  s\<lparr>staged := (staged s)\<lparr>creditRows := creditRows (staged s) @ [usedCredit]\<rparr>\<rparr>)))
      else (Inr (priceInCents, None), s))"

definition setPaid :: "ident \<Rightarrow> db \<Rightarrow> db" where
  "setPaid aid d =
     d\<lparr>studentRows :=
         map (\<lambda>s. if accountId (parent s) = aid then s\<lparr>parent := (parent s)\<lparr>paid := True\<rparr>\<rparr> else s)
           (studentRows d)\<rparr>"

definition referralCredit :: "env \<Rightarrow> student \<Rightarrow> klass \<Rightarrow> ident \<Rightarrow> db \<Rightarrow> creditRow" where
  "referralCredit en st mainKlass referer d =
     \<lparr>creditKey = length (creditRows d),
      cents = referralCreditsPurchase en,
      creditUserId = referer,
      creditType = Referral,
      details = \<lparr>reason = firstName (parent st) @ '' has purchased '' @ courseName (course mainKlass),
                 createdBy = ''firstPurchase'',
                 attributionUserId = parentId st,
                 attributionClassId = klassId mainKlass\<rparr>\<rparr>"

definition referralStep ::
  "env \<Rightarrow> student \<Rightarrow> klass \<Rightarrow> int \<Rightarrow> session \<Rightarrow> (error + unit) \<times> session" where
  "referralStep en st mainKlass priceInCents s =
     (if isRegular (course mainKlass) \<and> \<not> paid (parent st) then
        (case fault en UpdatePaid of
           Some e \<Rightarrow> (Inl e, s)
         | None \<Rightarrow>
             (let s1 = s\<lparr>staged := setPaid (accountId (parent st)) (staged s)\<rparr> in
              case refererId (parent st) of
                Some referer \<Rightarrow>
                  if priceInCents > 0 \<and> referer \<noteq> [] then
                    (case fault en CreateReferralCredit of
                       Some e \<Rightarrow> (Inl e, s1)
                     | None \<Rightarrow>
                         (Inr (),
                          s1\<lparr>staged := (staged s1)\<lparr>creditRows := creditRows (staged s1) @
                                [referralCredit en st mainKlass referer (staged s1)]\<rparr>\<rparr>))
                  else (Inr (), s1)
              | None \<Rightarrow> (Inr (), s1)))
      else (Inr (), s))"

definition orEmpty :: "string option \<Rightarrow> string" where
  "orEmpty v = (case v of None \<Rightarrow> [] | Some x \<Rightarrow> x)"

definition newEnrollments ::
  "request \<Rightarrow> student \<Rightarrow> klass list \<Rightarrow> promotion option \<Rightarrow> creditRow option \<Rightarrow> enrollment list" where
  "newEnrollments req st klasses appliedPromo usedCredit =
     map (\<lambda>k. \<lparr>enrStudentId = studentKey st,
               enrClassId = klassId k,
               source = orEmpty (utmSource req),
               campaign = orEmpty (utmCampaign req),
               enrPromotionId = map_option promoId appliedPromo,
               enrCreditId = map_option creditKey usedCredit\<rparr>) klasses"

definition bulkCreate ::
  "env \<Rightarrow> request \<Rightarrow> student \<Rightarrow> klass list \<Rightarrow> promotion option \<Rightarrow> creditRow option \<Rightarrow> session
     \<Rightarrow> (error + enrollment list) \<times> session" where
  "bulkCreate en req st klasses appliedPromo usedCredit s =
     (case fault en BulkCreate of
        Some e \<Rightarrow> (Inl e, s)
      | None \<Rightarrow>
          (let enrollments = newEnrollments req st klasses appliedPromo usedCredit in
           (Inr enrollments,
            s\<lparr>staged := (staged s)\<lparr>enrollmentRows := enrollmentRows (staged s) @ enrollments\<rparr>\<rparr>)))"

text \<open>
  The order id is \<^verbatim>\<open>args.classIds[0] + args.studentId\<close>; an empty \<^verbatim>\<open>classIds\<close> would
  give \<^verbatim>\<open>undefined\<close>, which JavaScript's \<^verbatim>\<open>+\<close> turns into the text "undefined".
\<close>

definition saleOrderId :: "request \<Rightarrow> string" where
  "saleOrderId req =
     (case classIds req of [] \<Rightarrow> ''undefined'' | c # _ \<Rightarrow> c) @ studentId req"

definition linkLast :: "enrollment list \<Rightarrow> saleRecord list \<Rightarrow> saleRecord list" where
  "linkLast enrollments rows =
     (case rev rows of
        [] \<Rightarrow> []
      | r # earlier \<Rightarrow> rev earlier @ [r\<lparr>saleEnrollments := enrollments\<rparr>])"

definition chargeStep ::
  "env \<Rightarrow> request \<Rightarrow> int \<Rightarrow> enrollment list \<Rightarrow> session \<Rightarrow> (error + unit) \<times> session" where
  "chargeStep en req priceInCents enrollments s =
     (if priceInCents > 0 then
        (let s1 = s\<lparr>gatewayCalls := gatewayCalls s @
                     [\<lparr>amountCents = priceInCents, nonce = paymentMethodNonce req,
                       orderId = saleOrderId req\<rparr>]\<rparr>
         in case sale en priceInCents (paymentMethodNonce req) (saleOrderId req) of
              Inl e \<Rightarrow> (Inl e, s1)
            | Inr transactionDetails \<Rightarrow>
                (case fault en CreateTransaction of
                   Some e \<Rightarrow> (Inl e, s1)
                 | None \<Rightarrow>
                     (let s2 = s1\<lparr>staged := (staged s1)\<lparr>transactionRows :=
                                   transactionRows (staged s1) @
                                     [\<lparr>recordDetails = transactionDetails,
                                       saleEnrollments = []\<rparr>]\<rparr>\<rparr>
                      in case fault en AddEnrollments of
                           Some e \<Rightarrow> (Inl e, s2)
                         | None \<Rightarrow>
                             (Inr (),
                              s2\<lparr>staged := (staged s2)\<lparr>transactionRows :=
                                    linkLast enrollments (transactionRows (staged s2))\<rparr>\<rparr>))))
      else (Inr (), s))"

text \<open>
  Lines 142 to 186: the promotion and the credit, in this order. The value is the price
  left to pay with the promotion and the credit row that were used.
\<close>

definition pricingSteps ::
  "env \<Rightarrow> request \<Rightarrow> ident \<Rightarrow> student \<Rightarrow> klass \<Rightarrow> klass list \<Rightarrow> session
     \<Rightarrow> (error + (int \<times> promotion option \<times> creditRow option)) \<times> session" where
  "pricingSteps en req uid st mainKlass klasses =
     thenE (promoStep en req st mainKlass klasses (totalPrice en req klasses))
       (\<lambda>(price1, appliedPromo).
     thenE (creditStep en req uid mainKlass price1)
       (\<lambda>(price2, usedCredit) s. (Inr (price2, appliedPromo, usedCredit), s)))"

text \<open>
  Lines 142 to 242: everything between opening the transaction and committing it. The
  value is the list of created enrollments.
\<close>

definition txBody ::
  "env \<Rightarrow> request \<Rightarrow> ident \<Rightarrow> student \<Rightarrow> klass \<Rightarrow> klass list \<Rightarrow> session
     \<Rightarrow> (error + enrollment list) \<times> session" where
  "txBody en req uid st mainKlass klasses =
     thenE (pricingSteps en req uid st mainKlass klasses)
       (\<lambda>(priceInCents, appliedPromo, usedCredit).
     thenE (referralStep en st mainKlass priceInCents)
       (\<lambda>_.
     thenE (bulkCreate en req st klasses appliedPromo usedCredit)
       (\<lambda>enrollments.
     thenE (chargeStep en req priceInCents enrollments)
       (\<lambda>_ s. (Inr enrollments, s)))))"

section \<open>Commit, event, rollback (lines 244 to 254)\<close>

text \<open>
  The transaction object of the store, as the source uses it. \<^verbatim>\<open>commit\<close> publishes
  the staged store when it succeeds and in either case leaves the transaction finished.
  \<^verbatim>\<open>rollback\<close> is refused by a transaction that has finished, and the committed
  store stays as it is. On an open transaction it is an awaited store operation like the
  others: it can reject, and then nothing is settled (the staged writes are neither
  committed nor discarded, and the committed store is still the one before); when it
  succeeds it discards the staged writes and leaves the transaction finished.
\<close>

definition commit :: "env \<Rightarrow> session \<Rightarrow> (error + unit) \<times> session" where
  "commit en s =
     (case fault en Commit of
        Some e \<Rightarrow> (Inl e, s\<lparr>finished := True\<rparr>)
      | None \<Rightarrow> (Inr (), s\<lparr>store := staged s, finished := True\<rparr>))"

definition rollback :: "env \<Rightarrow> session \<Rightarrow> (error + unit) \<times> session" where
  "rollback en s =
     (if finished s
      then (Inl (TransactionFinished
                  ''Transaction cannot be rolled back because it has been finished with state: commit''), s)
      else
        (case fault en Rollback of
           Some e \<Rightarrow> (Inl e, s)
         | None \<Rightarrow> (Inr (), s\<lparr>staged := store s, finished := True\<rparr>)))"

definition emitEnrollClassEvent :: "env \<Rightarrow> enrollment list \<Rightarrow> session \<Rightarrow> (error + unit) \<times> session" where
  "emitEnrollClassEvent en enrollments s =
     (case fault en EmitEvent of
        Some e \<Rightarrow> (Inl e, s)
      | None \<Rightarrow> (Inr (), s\<lparr>busEvents := busEvents s @ [enrollments]\<rparr>))"

definition tryBlock ::
  "env \<Rightarrow> request \<Rightarrow> ident \<Rightarrow> student \<Rightarrow> klass \<Rightarrow> klass list \<Rightarrow> session
     \<Rightarrow> (error + enrollment list) \<times> session" where
  "tryBlock en req uid st mainKlass klasses =
     thenE (txBody en req uid st mainKlass klasses)
       (\<lambda>enrollments.
     thenE (commit en)
       (\<lambda>_.
     thenE (emitEnrollClassEvent en enrollments)
       (\<lambda>_ s. (Inr enrollments, s))))"

definition openSession :: "world \<Rightarrow> session" where
  "openSession w =
     \<lparr>store = store w, gatewayCalls = gatewayCalls w, busEvents = busEvents w,
      staged = store w, finished = False\<rparr>"

definition closeSession :: "session \<Rightarrow> world" where
  "closeSession s =
     \<lparr>store = store s, gatewayCalls = gatewayCalls s, busEvents = busEvents s\<rparr>"

text \<open>
  The \<^verbatim>\<open>catch\<close> block, lines 249 to 254: \<^verbatim>\<open>await tx.rollback()\<close> comes before
  \<^verbatim>\<open>throw err\<close>, so when the rollback itself throws, its error is the one that leaves
  the block and the caught error is lost. The value is the error thrown.
\<close>

definition catchBlock :: "env \<Rightarrow> error \<Rightarrow> session \<Rightarrow> error \<times> session" where
  "catchBlock en err s =
     (case rollback en s of
        (Inl rollbackErr, s') \<Rightarrow> (rollbackErr, s')
      | (Inr _, s') \<Rightarrow> (err, s'))"

text \<open>
  The \<^verbatim>\<open>try\<close>/\<^verbatim>\<open>catch\<close> of lines 141 to 254: a throw anywhere in the \<^verbatim>\<open>try\<close>
  block (also after the commit) runs the \<^verbatim>\<open>catch\<close> block.
\<close>

definition runTransaction ::
  "env \<Rightarrow> request \<Rightarrow> ident \<Rightarrow> student \<Rightarrow> klass \<Rightarrow> klass list \<Rightarrow> world
     \<Rightarrow> (error + enrollment list) \<times> world" where
  "runTransaction en req uid st mainKlass klasses w =
     (case tryBlock en req uid st mainKlass klasses (openSession w) of
        (Inr enrollments, s) \<Rightarrow> (Inr enrollments, closeSession s)
      | (Inl err, s) \<Rightarrow>
          (case catchBlock en err s of
             (thrown, s') \<Rightarrow> (Inl thrown, closeSession s')))"

text \<open>
  The mutation, lines 83 to 255. After validation \<^verbatim>\<open>klasses\<close> is not empty, so
  \<^verbatim>\<open>klasses[0]\<close> exists and the branch for an empty list is never taken.
\<close>

definition enrollClass :: "env \<Rightarrow> request \<Rightarrow> world \<Rightarrow> (error + enrollment list) \<times> world" where
  "enrollClass en req w =
     (case validate en req w of
        Inl e \<Rightarrow> (Inl e, w)
      | Inr (uid, st, klasses) \<Rightarrow>
          (case findMainKlass klasses of
             None \<Rightarrow> (Inl (BadRequest ''invalid classIds''), w)
           | Some mainKlass \<Rightarrow>
               (case fault en BeginTransaction of
                  Some e \<Rightarrow> (Inl e, w)
                | None \<Rightarrow> runTransaction en req uid st mainKlass klasses w)))"

section \<open>A small school, for concrete runs\<close>

definition algebraTwo :: course where
  "algebraTwo = \<lparr>courseName = ''Algebra 2'', level = 2, isTrial = False, isRegular = True\<rparr>"

definition algebraOne :: course where
  "algebraOne = \<lparr>courseName = ''Algebra 1'', level = 1, isTrial = False, isRegular = True\<rparr>"

definition introCourse :: course where
  "introCourse = \<lparr>courseName = ''Intro'', level = 0, isTrial = True, isRegular = False\<rparr>"

definition klassA2 :: klass where
  "klassA2 = \<lparr>klassId = ''c2'', course = algebraTwo\<rparr>"

definition klassA1 :: klass where
  "klassA1 = \<lparr>klassId = ''c1'', course = algebraOne\<rparr>"

definition klassIntro :: klass where
  "klassIntro = \<lparr>klassId = ''t0'', course = introCourse\<rparr>"

definition ann :: account where
  "ann = \<lparr>accountId = ''u1'', firstName = ''Ann'', paid = False, refererId = Some ''u9''\<rparr>"

definition bob :: account where
  "bob = \<lparr>accountId = ''u2'', firstName = ''Bob'', paid = False, refererId = None\<rparr>"

definition annsChild :: student where
  "annsChild = \<lparr>studentKey = ''s1'', parentId = ''u1'', parent = ann\<rparr>"

definition bobsChild :: student where
  "bobsChild = \<lparr>studentKey = ''s2'', parentId = ''u2'', parent = bob\<rparr>"

definition promoSave :: promotion where
  "promoSave = \<lparr>promoId = ''p1'', promoCode = ''SAVE'', counts = 3\<rparr>"

definition giftCredit :: creditRow where
  "giftCredit =
     \<lparr>creditKey = 0, cents = 5000, creditUserId = ''u1'', creditType = Referral,
      details = \<lparr>reason = ''gift'', createdBy = ''support'',
                 attributionUserId = ''u1'', attributionClassId = ''c0''\<rparr>\<rparr>"

definition schoolDb :: db where
  "schoolDb =
     \<lparr>studentRows = [annsChild, bobsChild],
      classRows = [klassA2, klassA1, klassIntro],
      promotionRows = [promoSave],
      creditRows = [giftCredit],
      enrollmentRows = [],
      transactionRows = []\<rparr>"

definition school :: world where
  "school = \<lparr>store = schoolDb, gatewayCalls = [], busEvents = []\<rparr>"

text \<open>
  Collaborators for the concrete runs: a regular class costs 10000 cents and a trial class
  nothing, a promotion takes 1000 cents off (never below zero), a promotion qualifies
  when its id is in the table, the balance is the sum of the account's credit rows, the
  gateway captures whenever a payment token is present, the referral bonus is 2000
  cents, and no store or bus operation rejects.
\<close>

definition schoolEnv :: env where
  "schoolEnv =
     \<lparr>getTotalPriceInCents =
        (\<lambda>ks ws. sum_list (map (\<lambda>k. if isRegular (course k) then 10000 else 0) ks)),
      applyPromo = (\<lambda>price p bundle ws. max 0 (price - 1000)),
      getPromotionIfQualified =
        (\<lambda>d pid a c. Inr (find (\<lambda>p. promoId p = pid) (promotionRows d))),
      getBalanceInCents =
        (\<lambda>d a. Inr (sum_list (map cents
                 (filter (\<lambda>c. creditUserId c = accountId a) (creditRows d))))),
      sale =
        (\<lambda>amount token oid.
           case token of None \<Rightarrow> Inl (Failure ''payment method missing'')
           | Some t \<Rightarrow> Inr ''captured''),
      referralCreditsPurchase = 2000,
      fault = (\<lambda>op. None)\<rparr>"

definition annRequest :: request where
  "annRequest =
     \<lparr>userId = Some ''u1'', utmSource = None, utmCampaign = Some ''spring'',
      classIds = [''c1''], studentId = ''s1'', credit = 3000, promotionId = None,
      paymentMethodNonce = Some ''tok'', wholeSeries = False\<rparr>"

definition bobRequest :: request where
  "bobRequest =
     \<lparr>userId = Some ''u2'', utmSource = None, utmCampaign = None,
      classIds = [''c1''], studentId = ''s2'', credit = 0, promotionId = None,
      paymentMethodNonce = Some ''tok'', wholeSeries = False\<rparr>"

text \<open>The same collaborators with an event bus that rejects every event.\<close>

definition busDownEnv :: env where
  "busDownEnv = schoolEnv\<lparr>fault := (\<lambda>op. if op = EmitEvent then Some (Failure ''bus down'') else None)\<rparr>"

text \<open>The same collaborators with a store that rejects every rollback.\<close>

definition rollbackDownEnv :: env where
  "rollbackDownEnv =
     schoolEnv\<lparr>fault := (\<lambda>op. if op = Rollback then Some (Failure ''rollback failed'') else None)\<rparr>"

section \<open>Evaluating the model\<close>

lemmas step_defs =
  thenE_def promoStep_def creditStep_def referralStep_def bulkCreate_def chargeStep_def
  pricingSteps_def txBody_def commit_def rollback_def emitEnrollClassEvent_def tryBlock_def
  openSession_def closeSession_def catchBlock_def runTransaction_def

lemmas model_defs =
  step_defs enrollClass_def validate_def getStudent_def findAllClasses_def isBundle_def
  totalPrice_def promoPrice_def Let_def
  incrementCounts_def applyCredit_def purchaseCredit_def setPaid_def referralCredit_def
  orEmpty_def newEnrollments_def saleOrderId_def linkLast_def

lemmas school_defs =
  algebraTwo_def algebraOne_def introCourse_def klassA2_def klassA1_def klassIntro_def
  ann_def bob_def annsChild_def bobsChild_def promoSave_def giftCredit_def schoolDb_def
  school_def schoolEnv_def annRequest_def bobRequest_def busDownEnv_def rollbackDownEnv_def

section \<open>What each step leaves alone\<close>

lemma thenE_Inl: "m s = (Inl e, s') \<Longrightarrow> thenE m f s = (Inl e, s')"
  by (simp add: thenE_def)

lemma thenE_cases:
  assumes "thenE m f s = (r, s'')"
  obtains (throws) e where "m s = (Inl e, s'')" "r = Inl e"
        | (continues) x s' where "m s = (Inr x, s')" "f x s' = (r, s'')"
  using assms by (auto simp: thenE_def split: prod.splits sum.splits)

lemma promoStep_frame:
  assumes "promoStep en req st mk ks p s = (r, s')"
  shows "store s' = store s \<and> gatewayCalls s' = gatewayCalls s \<and> busEvents s' = busEvents s
         \<and> finished s' = finished s"
  using assms by (auto simp: promoStep_def split: option.splits sum.splits if_splits)

lemma creditStep_frame:
  assumes "creditStep en req uid mk p s = (r, s')"
  shows "store s' = store s \<and> gatewayCalls s' = gatewayCalls s \<and> busEvents s' = busEvents s
         \<and> finished s' = finished s"
  using assms by (auto simp: creditStep_def Let_def split: option.splits if_splits)

lemma referralStep_frame:
  assumes "referralStep en st mk p s = (r, s')"
  shows "store s' = store s \<and> gatewayCalls s' = gatewayCalls s \<and> busEvents s' = busEvents s
         \<and> finished s' = finished s"
  using assms by (auto simp: referralStep_def Let_def split: option.splits if_splits)

lemma bulkCreate_frame:
  assumes "bulkCreate en req st ks pr cr s = (r, s')"
  shows "store s' = store s \<and> gatewayCalls s' = gatewayCalls s \<and> busEvents s' = busEvents s
         \<and> finished s' = finished s"
  using assms by (auto simp: bulkCreate_def Let_def split: option.splits if_splits)

lemma chargeStep_frame:
  assumes "chargeStep en req p ens s = (r, s')"
  shows "store s' = store s \<and> busEvents s' = busEvents s \<and> finished s' = finished s"
  using assms by (auto simp: chargeStep_def Let_def split: option.splits sum.splits if_splits)

lemma chargeStep_calls:
  assumes "chargeStep en req p ens s = (r, s')"
  shows "gatewayCalls s' =
           (if p > 0 then gatewayCalls s @
              [\<lparr>amountCents = p, nonce = paymentMethodNonce req, orderId = saleOrderId req\<rparr>]
            else gatewayCalls s)"
  using assms by (auto simp: chargeStep_def Let_def split: option.splits sum.splits if_splits)

lemma pricingSteps_frame:
  assumes "pricingSteps en req uid st mk ks s = (r, s')"
  shows "store s' = store s \<and> gatewayCalls s' = gatewayCalls s \<and> busEvents s' = busEvents s
         \<and> finished s' = finished s"
  using assms unfolding pricingSteps_def
  by (auto elim!: thenE_cases dest!: promoStep_frame creditStep_frame split: prod.splits)

section \<open>The transaction as a whole\<close>

lemma txBody_frame:
  assumes "txBody en req uid st mk ks s = (r, s')"
  shows "store s' = store s \<and> busEvents s' = busEvents s \<and> finished s' = finished s"
  using assms unfolding txBody_def
  by (auto elim!: thenE_cases dest!: pricingSteps_frame referralStep_frame bulkCreate_frame
        chargeStep_frame split: prod.splits)

lemma txBody_calls:
  assumes "txBody en req uid st mk ks s = (r, s')"
  shows "gatewayCalls s' = gatewayCalls s \<or>
         (\<exists>c. gatewayCalls s' = gatewayCalls s @ [c] \<and> amountCents c > 0)"
  using assms unfolding txBody_def
  by (auto elim!: thenE_cases dest!: pricingSteps_frame referralStep_frame bulkCreate_frame
        chargeStep_calls split: prod.splits if_splits)

lemma runTransaction_rollback:
  assumes "txBody en req uid st mk ks (openSession w) = (Inl e, s)"
  shows "runTransaction en req uid st mk ks w =
           (Inl (case fault en Rollback of None \<Rightarrow> e | Some rollbackErr \<Rightarrow> rollbackErr),
            w\<lparr>gatewayCalls := gatewayCalls s\<rparr>)"
proof -
  from txBody_frame[OF assms]
  have fr: "store s = store w" "busEvents s = busEvents w" "finished s = False"
    by (simp_all add: openSession_def)
  have "tryBlock en req uid st mk ks (openSession w) = (Inl e, s)"
    unfolding tryBlock_def by (rule thenE_Inl) (rule assms)
  then show ?thesis
    using fr
    by (simp add: runTransaction_def catchBlock_def rollback_def closeSession_def
        split: option.splits)
qed

lemma runTransaction_commit_fails:
  assumes "txBody en req uid st mk ks (openSession w) = (Inr ens, s)"
    and "fault en Commit = Some e"
  shows "runTransaction en req uid st mk ks w =
           (Inl (TransactionFinished
              ''Transaction cannot be rolled back because it has been finished with state: commit''),
            w\<lparr>gatewayCalls := gatewayCalls s\<rparr>)"
proof -
  from txBody_frame[OF assms(1)]
  have fr: "store s = store w" "busEvents s = busEvents w" "finished s = False"
    by (simp_all add: openSession_def)
  have "tryBlock en req uid st mk ks (openSession w) = (Inl e, s\<lparr>finished := True\<rparr>)"
    unfolding tryBlock_def using assms by (simp add: thenE_def commit_def)
  then show ?thesis
    using fr
    by (simp add: runTransaction_def catchBlock_def rollback_def closeSession_def
        split: option.splits)
qed

lemma runTransaction_emit_fails:
  assumes "txBody en req uid st mk ks (openSession w) = (Inr ens, s)"
    and "fault en Commit = None" and "fault en EmitEvent = Some e"
  shows "runTransaction en req uid st mk ks w =
           (Inl (TransactionFinished
              ''Transaction cannot be rolled back because it has been finished with state: commit''),
            \<lparr>store = staged s, gatewayCalls = gatewayCalls s, busEvents = busEvents w\<rparr>)"
proof -
  from txBody_frame[OF assms(1)]
  have fr: "store s = store w" "busEvents s = busEvents w" "finished s = False"
    by (simp_all add: openSession_def)
  have "tryBlock en req uid st mk ks (openSession w) =
          (Inl e, s\<lparr>store := staged s, finished := True\<rparr>)"
    unfolding tryBlock_def using assms by (simp add: thenE_def commit_def emitEnrollClassEvent_def)
  then show ?thesis
    using fr
    by (simp add: runTransaction_def catchBlock_def rollback_def closeSession_def
        split: option.splits)
qed

lemma runTransaction_success:
  assumes "txBody en req uid st mk ks (openSession w) = (Inr ens, s)"
    and "fault en Commit = None" and "fault en EmitEvent = None"
  shows "runTransaction en req uid st mk ks w =
           (Inr ens,
            \<lparr>store = staged s, gatewayCalls = gatewayCalls s, busEvents = busEvents w @ [ens]\<rparr>)"
proof -
  from txBody_frame[OF assms(1)]
  have fr: "store s = store w" "busEvents s = busEvents w" "finished s = False"
    by (simp_all add: openSession_def)
  have "tryBlock en req uid st mk ks (openSession w) =
          (Inr ens, s\<lparr>store := staged s, finished := True, busEvents := busEvents s @ [ens]\<rparr>)"
    unfolding tryBlock_def using assms by (simp add: thenE_def commit_def emitEnrollClassEvent_def)
  then show ?thesis
    using fr
    by (simp add: runTransaction_def catchBlock_def rollback_def closeSession_def
        split: option.splits)
qed

lemma validate_nonempty:
  assumes "validate en req w = Inr (uid, st, ks)"
  shows "ks \<noteq> [] \<and> findAllClasses (store w) (classIds req) = ks \<and> userId req = Some uid
         \<and> uid \<noteq> [] \<and> getStudent (store w) (studentId req) uid = Inr st"
  using assms
  by (auto simp: validate_def split: option.splits sum.splits list.splits if_splits)

lemma findMainKlass_Some: "ks \<noteq> [] \<Longrightarrow> \<exists>mk. findMainKlass ks = Some mk"
  by (cases ks) auto

lemma enrollClass_invalid:
  "validate en req w = Inl e \<Longrightarrow> enrollClass en req w = (Inl e, w)"
  by (simp add: enrollClass_def)

lemma enrollClass_begin_fails:
  assumes "validate en req w = Inr (uid, st, ks)" and "fault en BeginTransaction = Some e"
  shows "enrollClass en req w = (Inl e, w)"
proof -
  from validate_nonempty[OF assms(1)] have "ks \<noteq> []" by simp
  then obtain mk where "findMainKlass ks = Some mk"
    using findMainKlass_Some by blast
  then show ?thesis
    using assms by (simp add: enrollClass_def)
qed

lemma enrollClass_valid:
  assumes "validate en req w = Inr (uid, st, ks)" and "findMainKlass ks = Some mk"
    and "fault en BeginTransaction = None"
  shows "enrollClass en req w = runTransaction en req uid st mk ks w"
  using assms by (simp add: enrollClass_def)

section \<open>Finding the student\<close>

lemma getStudent_none:
  "(\<forall>s\<in>set (studentRows d). studentKey s \<noteq> sid \<or> parentId s \<noteq> uid)
   \<Longrightarrow> getStudent d sid uid = Inl EmptyResultError"
  by (auto simp: getStudent_def find_None_iff split: option.splits)

lemma getStudent_Inl:
  "getStudent d sid uid = Inl e \<Longrightarrow> e = EmptyResultError"
  by (auto simp: getStudent_def split: option.splits)

section \<open>Validation before the transaction\<close>

text \<open>
  C6. Every input check of \<^verbatim>\<open>enrollClass\<close> is made before the transaction is
  opened, and a request that fails one of them leaves the world exactly as it was: a
  caller without identity gets \<open>Unauthorized\<close>; a student that is not a row of the
  caller's account gets the lookup's \<open>EmptyResultError\<close> (not found); class ids that
  match no class get \<open>BadRequest\<close>; a positive credit above the account's balance
  gets \<open>BadRequest\<close>. Whatever error validation yields, the mutation returns it with the
  store, the gateway and the bus untouched; and a request that passes the four checks
  is valid.
\<close>

theorem validation_precedes_transaction:
  "(\<not> truthy (userId req) \<longrightarrow>
      enrollClass en req w = (Inl (Unauthorized ''You must login first''), w))
   \<and> (userId req = Some uid \<and> uid \<noteq> [] \<and>
        (\<forall>s\<in>set (studentRows (store w)). studentKey s \<noteq> studentId req \<or> parentId s \<noteq> uid) \<longrightarrow>
      enrollClass en req w = (Inl EmptyResultError, w))
   \<and> (userId req = Some uid \<and> uid \<noteq> [] \<and> getStudent (store w) (studentId req) uid = Inr st \<and>
        (\<forall>k\<in>set (classRows (store w)). klassId k \<notin> set (classIds req)) \<longrightarrow>
      enrollClass en req w = (Inl (BadRequest ''invalid classIds''), w))
   \<and> (userId req = Some uid \<and> uid \<noteq> [] \<and> getStudent (store w) (studentId req) uid = Inr st \<and>
        findAllClasses (store w) (classIds req) \<noteq> [] \<and> credit req > 0 \<and>
        getBalanceInCents en (store w) (parent st) = Inr balanceInCents \<and>
        credit req > balanceInCents \<longrightarrow>
      enrollClass en req w = (Inl (BadRequest ''you do not have enough credit''), w))
   \<and> (validate en req w = Inl e \<longrightarrow> enrollClass en req w = (Inl e, w))
   \<and> (userId req = Some uid \<and> uid \<noteq> [] \<and> getStudent (store w) (studentId req) uid = Inr st \<and>
        findAllClasses (store w) (classIds req) \<noteq> [] \<and>
        (credit req \<le> 0 \<or>
         getBalanceInCents en (store w) (parent st) = Inr balanceInCents \<and>
         credit req \<le> balanceInCents) \<longrightarrow>
      validate en req w = Inr (uid, st, findAllClasses (store w) (classIds req)))"
proof (intro conjI impI)
  assume "\<not> truthy (userId req)"
  then have "validate en req w = Inl (Unauthorized ''You must login first'')"
    by (cases "userId req") (simp_all add: validate_def)
  then show "enrollClass en req w = (Inl (Unauthorized ''You must login first''), w)"
    by (rule enrollClass_invalid)
next
  assume a: "userId req = Some uid \<and> uid \<noteq> [] \<and>
        (\<forall>s\<in>set (studentRows (store w)). studentKey s \<noteq> studentId req \<or> parentId s \<noteq> uid)"
  then have "getStudent (store w) (studentId req) uid = Inl EmptyResultError"
    by (simp add: getStudent_none)
  with a have "validate en req w = Inl EmptyResultError"
    by (simp add: validate_def)
  then show "enrollClass en req w = (Inl EmptyResultError, w)"
    by (rule enrollClass_invalid)
next
  assume a: "userId req = Some uid \<and> uid \<noteq> [] \<and> getStudent (store w) (studentId req) uid = Inr st \<and>
        (\<forall>k\<in>set (classRows (store w)). klassId k \<notin> set (classIds req))"
  then have "findAllClasses (store w) (classIds req) = []"
    by (simp add: findAllClasses_def filter_empty_conv)
  with a have "validate en req w = Inl (BadRequest ''invalid classIds'')"
    by (simp add: validate_def)
  then show "enrollClass en req w = (Inl (BadRequest ''invalid classIds''), w)"
    by (rule enrollClass_invalid)
next
  assume a: "userId req = Some uid \<and> uid \<noteq> [] \<and> getStudent (store w) (studentId req) uid = Inr st \<and>
        findAllClasses (store w) (classIds req) \<noteq> [] \<and> credit req > 0 \<and>
        getBalanceInCents en (store w) (parent st) = Inr balanceInCents \<and>
        credit req > balanceInCents"
  then have "validate en req w = Inl (BadRequest ''you do not have enough credit'')"
    by (cases "findAllClasses (store w) (classIds req)") (simp_all add: validate_def)
  then show "enrollClass en req w = (Inl (BadRequest ''you do not have enough credit''), w)"
    by (rule enrollClass_invalid)
next
  assume "validate en req w = Inl e"
  then show "enrollClass en req w = (Inl e, w)"
    by (rule enrollClass_invalid)
next
  assume a: "userId req = Some uid \<and> uid \<noteq> [] \<and> getStudent (store w) (studentId req) uid = Inr st \<and>
        findAllClasses (store w) (classIds req) \<noteq> [] \<and>
        (credit req \<le> 0 \<or>
         getBalanceInCents en (store w) (parent st) = Inr balanceInCents \<and>
         credit req \<le> balanceInCents)"
  then show "validate en req w = Inr (uid, st, findAllClasses (store w) (classIds req))"
    by (cases "findAllClasses (store w) (classIds req)") (auto simp: validate_def)
qed


theorem validation_precedes_transaction_witness:
  "\<not> truthy (userId (annRequest\<lparr>userId := None\<rparr>))
   \<and> enrollClass schoolEnv (annRequest\<lparr>userId := None\<rparr>) school =
         (Inl (Unauthorized ''You must login first''), school)
   \<and> getStudent (store school) ''s2'' ''u1'' = Inl EmptyResultError
   \<and> enrollClass schoolEnv (annRequest\<lparr>studentId := ''s2''\<rparr>) school =
         (Inl EmptyResultError, school)
   \<and> findAllClasses (store school) [''zz''] = []
   \<and> enrollClass schoolEnv (annRequest\<lparr>classIds := [''zz'']\<rparr>) school =
         (Inl (BadRequest ''invalid classIds''), school)
   \<and> getBalanceInCents schoolEnv (store school) ann = Inr 5000
   \<and> enrollClass schoolEnv (annRequest\<lparr>credit := 5001\<rparr>) school =
         (Inl (BadRequest ''you do not have enough credit''), school)
   \<and> validate schoolEnv annRequest school = Inr (''u1'', annsChild, [klassA1])"
  using
    validation_precedes_transaction[where req = "annRequest\<lparr>userId := None\<rparr>"
      and en = schoolEnv and w = school]
    validation_precedes_transaction[where req = "annRequest\<lparr>studentId := ''s2''\<rparr>"
      and en = schoolEnv and w = school and uid = "''u1''"]
    validation_precedes_transaction[where req = "annRequest\<lparr>classIds := [''zz'']\<rparr>"
      and en = schoolEnv and w = school and uid = "''u1''" and st = annsChild]
    validation_precedes_transaction[where req = "annRequest\<lparr>credit := 5001\<rparr>"
      and en = schoolEnv and w = school and uid = "''u1''" and st = annsChild
      and balanceInCents = 5000]
    validation_precedes_transaction[where req = annRequest
      and en = schoolEnv and w = school and uid = "''u1''" and st = annsChild
      and balanceInCents = 5000]
  by (simp add: getStudent_def findAllClasses_def school_defs)

section \<open>The outcomes of the mutation\<close>

lemma enrollClass_cases:
  obtains
    (invalid) e where "validate en req w = Inl e" "enrollClass en req w = (Inl e, w)"
  | (unopened) uid st ks e where "validate en req w = Inr (uid, st, ks)"
      "fault en BeginTransaction = Some e" "enrollClass en req w = (Inl e, w)"
  | (rolledBack) uid st ks mk e s where "validate en req w = Inr (uid, st, ks)"
      "findMainKlass ks = Some mk" "fault en BeginTransaction = None"
      "txBody en req uid st mk ks (openSession w) = (Inl e, s)"
      "enrollClass en req w =
         (Inl (case fault en Rollback of None \<Rightarrow> e | Some rollbackErr \<Rightarrow> rollbackErr),
          w\<lparr>gatewayCalls := gatewayCalls s\<rparr>)"
  | (uncommitted) uid st ks mk ens s e where "validate en req w = Inr (uid, st, ks)"
      "findMainKlass ks = Some mk" "fault en BeginTransaction = None"
      "txBody en req uid st mk ks (openSession w) = (Inr ens, s)"
      "fault en Commit = Some e"
      "enrollClass en req w =
         (Inl (TransactionFinished
            ''Transaction cannot be rolled back because it has been finished with state: commit''),
          w\<lparr>gatewayCalls := gatewayCalls s\<rparr>)"
  | (unannounced) uid st ks mk ens s e where "validate en req w = Inr (uid, st, ks)"
      "findMainKlass ks = Some mk" "fault en BeginTransaction = None"
      "txBody en req uid st mk ks (openSession w) = (Inr ens, s)"
      "fault en Commit = None" "fault en EmitEvent = Some e"
      "enrollClass en req w =
         (Inl (TransactionFinished
            ''Transaction cannot be rolled back because it has been finished with state: commit''),
          \<lparr>store = staged s, gatewayCalls = gatewayCalls s, busEvents = busEvents w\<rparr>)"
  | (announced) uid st ks mk ens s where "validate en req w = Inr (uid, st, ks)"
      "findMainKlass ks = Some mk" "fault en BeginTransaction = None"
      "txBody en req uid st mk ks (openSession w) = (Inr ens, s)"
      "fault en Commit = None" "fault en EmitEvent = None"
      "enrollClass en req w =
         (Inr ens,
          \<lparr>store = staged s, gatewayCalls = gatewayCalls s, busEvents = busEvents w @ [ens]\<rparr>)"
proof (cases "validate en req w")
  case (Inl e)
  then show ?thesis using invalid enrollClass_invalid by blast
next
  case (Inr v)
  then obtain uid st ks where v: "validate en req w = Inr (uid, st, ks)"
    by (cases v) auto
  then have "ks \<noteq> []" using validate_nonempty by blast
  then obtain mk where mk: "findMainKlass ks = Some mk"
    using findMainKlass_Some by blast
  show ?thesis
  proof (cases "fault en BeginTransaction")
    case (Some e)
    then show ?thesis using unopened v enrollClass_begin_fails by blast
  next
    case None
    note run = enrollClass_valid[OF v mk None]
    obtain r s where tx: "txBody en req uid st mk ks (openSession w) = (r, s)"
      by (cases "txBody en req uid st mk ks (openSession w)")
    show ?thesis
    proof (cases r)
      case (Inl e)
      with tx run runTransaction_rollback[of en req uid st mk ks w e s]
      show ?thesis using rolledBack[OF v mk None] by simp
    next
      case (Inr ens)
      show ?thesis
      proof (cases "fault en Commit")
        case (Some e)
        with tx Inr run runTransaction_commit_fails[of en req uid st mk ks w ens s e]
        show ?thesis using uncommitted[OF v mk None] by simp
      next
        case c: None
        show ?thesis
        proof (cases "fault en EmitEvent")
          case (Some e)
          with tx Inr run c runTransaction_emit_fails[of en req uid st mk ks w ens s e]
          show ?thesis using unannounced[OF v mk None] by simp
        next
          case ev: None
          with tx Inr run c runTransaction_success[of en req uid st mk ks w ens s]
          show ?thesis using announced[OF v mk None] by simp
        qed
      qed
    qed
  qed
qed

lemma txBody_throws:
  "pricingSteps en req uid st mk ks s = (Inl e, s')
   \<or> (\<exists>p pr cr s1. pricingSteps en req uid st mk ks s = (Inr (p, pr, cr), s1) \<and>
        (referralStep en st mk p s1 = (Inl e, s')
         \<or> (\<exists>s2. referralStep en st mk p s1 = (Inr (), s2) \<and>
              (bulkCreate en req st ks pr cr s2 = (Inl e, s')
               \<or> (\<exists>ens s3. bulkCreate en req st ks pr cr s2 = (Inr ens, s3) \<and>
                    chargeStep en req p ens s3 = (Inl e, s'))))))
   \<Longrightarrow> txBody en req uid st mk ks s = (Inl e, s')"
  unfolding txBody_def by (auto simp: thenE_def)

section \<open>Rollback\<close>

lemma catchBlock_open:
  assumes "\<not> finished s"
  shows "catchBlock en err s =
           (case fault en Rollback of
              None \<Rightarrow> (err, s\<lparr>staged := store s, finished := True\<rparr>)
            | Some rollbackErr \<Rightarrow> (rollbackErr, s))"
  using assms by (simp add: catchBlock_def rollback_def split: option.splits)

text \<open>
  C1, as the code has it. When a step between the opening of the transaction and its
  commit throws (the promotion is rejected, the credit row, the paid update, the
  referral credit, the enrollment rows, the gateway's capture, or the transaction record
  and its link cannot be written: \<open>txBody_throws\<close> lists the places), the world
  afterwards is the world before except for what the gateway has received: the
  committed store and the bus are as they were, so no enrollment, credit, counter
  increment, paid flag or transaction row of the attempt is committed. When the
  rollback succeeds, the \<^verbatim>\<open>catch\<close> block leaves the transaction finished with every
  staged write discarded (its view is again the store before the request) and
  \<^verbatim>\<open>enrollClass\<close> throws the same error the step threw. When the rollback itself
  rejects, \<^verbatim>\<open>enrollClass\<close> throws the rollback's error instead.
\<close>

theorem failure_inside_transaction_rolls_back:
  assumes "validate en req w = Inr (uid, st, klasses)"
    and "findMainKlass klasses = Some mainKlass"
    and "fault en BeginTransaction = None"
    and "txBody en req uid st mainKlass klasses (openSession w) = (Inl e, s)"
  shows "snd (enrollClass en req w) = w\<lparr>gatewayCalls := gatewayCalls s\<rparr>
         \<and> (fault en Rollback = None \<longrightarrow>
               enrollClass en req w = (Inl e, w\<lparr>gatewayCalls := gatewayCalls s\<rparr>)
               \<and> catchBlock en e s = (e, s\<lparr>staged := store w, finished := True\<rparr>))
         \<and> (fault en Rollback = Some rollbackErr \<longrightarrow>
               enrollClass en req w = (Inl rollbackErr, w\<lparr>gatewayCalls := gatewayCalls s\<rparr>))"
proof -
  from txBody_frame[OF assms(4)]
  have fr: "store s = store w" "\<not> finished s"
    by (simp_all add: openSession_def)
  have run: "enrollClass en req w =
      (Inl (case fault en Rollback of None \<Rightarrow> e | Some rollbackErr \<Rightarrow> rollbackErr),
       w\<lparr>gatewayCalls := gatewayCalls s\<rparr>)"
    using assms by (simp add: enrollClass_valid runTransaction_rollback)
  have "fault en Rollback = None \<longrightarrow>
          catchBlock en e s = (e, s\<lparr>staged := store w, finished := True\<rparr>)"
    using fr by (simp add: catchBlock_open)
  with run show ?thesis by simp
qed

theorem failure_inside_transaction_rolls_back_witness:
  "validate schoolEnv (annRequest\<lparr>paymentMethodNonce := None\<rparr>) school =
     Inr (''u1'', annsChild, [klassA1])
   \<and> findMainKlass [klassA1] = Some klassA1
   \<and> fault schoolEnv BeginTransaction = None
   \<and> fst (txBody schoolEnv (annRequest\<lparr>paymentMethodNonce := None\<rparr>) ''u1'' annsChild klassA1
            [klassA1] (openSession school)) = Inl (Failure ''payment method missing'')
   \<and> length (enrollmentRows (staged (snd
        (txBody schoolEnv (annRequest\<lparr>paymentMethodNonce := None\<rparr>) ''u1'' annsChild klassA1
            [klassA1] (openSession school))))) = 1
   \<and> length (creditRows (staged (snd
        (txBody schoolEnv (annRequest\<lparr>paymentMethodNonce := None\<rparr>) ''u1'' annsChild klassA1
            [klassA1] (openSession school))))) = 3
   \<and> map counts (promotionRows (staged (snd
        (txBody schoolEnv (annRequest\<lparr>paymentMethodNonce := None, promotionId := Some ''p1''\<rparr>)
            ''u1'' annsChild klassA1 [klassA1] (openSession school))))) = [4]
   \<and> fault schoolEnv Rollback = None
   \<and> staged (snd (catchBlock schoolEnv (Failure ''payment method missing'') (snd
        (txBody schoolEnv (annRequest\<lparr>paymentMethodNonce := None\<rparr>) ''u1'' annsChild klassA1
            [klassA1] (openSession school))))) = store school
   \<and> finished (snd (catchBlock schoolEnv (Failure ''payment method missing'') (snd
        (txBody schoolEnv (annRequest\<lparr>paymentMethodNonce := None\<rparr>) ''u1'' annsChild klassA1
            [klassA1] (openSession school)))))
   \<and> enrollClass schoolEnv (annRequest\<lparr>paymentMethodNonce := None\<rparr>) school =
       (Inl (Failure ''payment method missing''),
        school\<lparr>gatewayCalls := [\<lparr>amountCents = 7000, nonce = None, orderId = ''c1s1''\<rparr>]\<rparr>)
   \<and> validate rollbackDownEnv (annRequest\<lparr>paymentMethodNonce := None\<rparr>) school =
       Inr (''u1'', annsChild, [klassA1])
   \<and> fault rollbackDownEnv BeginTransaction = None
   \<and> fst (txBody rollbackDownEnv (annRequest\<lparr>paymentMethodNonce := None\<rparr>) ''u1'' annsChild
            klassA1 [klassA1] (openSession school)) = Inl (Failure ''payment method missing'')
   \<and> fault rollbackDownEnv Rollback = Some (Failure ''rollback failed'')
   \<and> enrollClass rollbackDownEnv (annRequest\<lparr>paymentMethodNonce := None\<rparr>) school =
       (Inl (Failure ''rollback failed''),
        school\<lparr>gatewayCalls := [\<lparr>amountCents = 7000, nonce = None, orderId = ''c1s1''\<rparr>]\<rparr>)"
proof -
  let ?R = "annRequest\<lparr>paymentMethodNonce := None\<rparr>"
  let ?T = "txBody schoolEnv ?R ''u1'' annsChild klassA1 [klassA1] (openSession school)"
  let ?D = "txBody rollbackDownEnv ?R ''u1'' annsChild klassA1 [klassA1] (openSession school)"
  have v: "validate schoolEnv ?R school = Inr (''u1'', annsChild, [klassA1])"
    "validate rollbackDownEnv ?R school = Inr (''u1'', annsChild, [klassA1])"
    by (simp_all add: validate_def getStudent_def findAllClasses_def school_defs)
  have m: "findMainKlass [klassA1] = Some klassA1"
    by simp
  have b: "fault schoolEnv BeginTransaction = None" "fault schoolEnv Rollback = None"
    "fault rollbackDownEnv BeginTransaction = None"
    "fault rollbackDownEnv Rollback = Some (Failure ''rollback failed'')"
    by (simp_all add: rollbackDownEnv_def schoolEnv_def)
  have f: "fst ?T = Inl (Failure ''payment method missing'')"
    by (simp add: model_defs school_defs)
  then have t: "?T = (Inl (Failure ''payment method missing''), snd ?T)"
    by (simp add: prod_eq_iff)
  have fd: "fst ?D = Inl (Failure ''payment method missing'')"
    by (simp add: model_defs school_defs)
  then have td: "?D = (Inl (Failure ''payment method missing''), snd ?D)"
    by (simp add: prod_eq_iff)
  have e: "length (enrollmentRows (staged (snd ?T))) = 1"
    by (simp add: model_defs school_defs)
  have c: "length (creditRows (staged (snd ?T))) = 3"
    by (simp add: model_defs school_defs)
  have p: "map counts (promotionRows (staged (snd
        (txBody schoolEnv (annRequest\<lparr>paymentMethodNonce := None, promotionId := Some ''p1''\<rparr>)
            ''u1'' annsChild klassA1 [klassA1] (openSession school))))) = [4]"
    by (simp add: model_defs school_defs)
  have g: "gatewayCalls (snd ?T) = [\<lparr>amountCents = 7000, nonce = None, orderId = ''c1s1''\<rparr>]"
    "gatewayCalls (snd ?D) = [\<lparr>amountCents = 7000, nonce = None, orderId = ''c1s1''\<rparr>]"
    by (simp_all add: model_defs school_defs)
  note undone = failure_inside_transaction_rolls_back[OF v(1) m b(1) t,
      THEN conjunct2, THEN conjunct1, rule_format, OF b(2)]
  note replaced = failure_inside_transaction_rolls_back[OF v(2) m b(3) td,
      THEN conjunct2, THEN conjunct2, rule_format, OF b(4)]
  from undone g(1)
  have same: "enrollClass schoolEnv ?R school =
       (Inl (Failure ''payment method missing''),
        school\<lparr>gatewayCalls := [\<lparr>amountCents = 7000, nonce = None, orderId = ''c1s1''\<rparr>]\<rparr>)"
    by simp
  from undone
  have discarded: "staged (snd (catchBlock schoolEnv (Failure ''payment method missing'') (snd ?T))) =
      store school"
    "finished (snd (catchBlock schoolEnv (Failure ''payment method missing'') (snd ?T)))"
    by simp_all
  from replaced g(2)
  have other: "enrollClass rollbackDownEnv ?R school =
       (Inl (Failure ''rollback failed''),
        school\<lparr>gatewayCalls := [\<lparr>amountCents = 7000, nonce = None, orderId = ''c1s1''\<rparr>]\<rparr>)"
    by simp
  from v m b f fd e c p same discarded other show ?thesis
    by simp
qed

text \<open>
  C1 as stated does not hold when the rollback rejects: the capture fails with one
  error, \<^verbatim>\<open>tx.rollback()\<close> rejects with another, and the caller gets the second.
\<close>

theorem rejected_rollback_replaces_error_counterexample:
  "fst (txBody rollbackDownEnv (annRequest\<lparr>paymentMethodNonce := None\<rparr>) ''u1'' annsChild
          klassA1 [klassA1] (openSession school)) = Inl (Failure ''payment method missing'')
   \<and> fst (enrollClass rollbackDownEnv (annRequest\<lparr>paymentMethodNonce := None\<rparr>) school) =
       Inl (Failure ''rollback failed'')
   \<and> Failure ''rollback failed'' \<noteq> Failure ''payment method missing''"
  by (simp add: model_defs school_defs)

section \<open>Main class and bundle\<close>







section \<open>What each step writes\<close>

lemma promoStep_skip:
  "\<not> (p > 0 \<and> truthy (promotionId req)) \<Longrightarrow> promoStep en req st mk ks p s = (Inr (p, None), s)"
  by (cases "promotionId req") (auto simp: promoStep_def)

lemma promoStep_not_qualified:
  assumes "p > 0" and "promotionId req = Some pid" and "pid \<noteq> []"
    and "getPromotionIfQualified en (store s) pid (parent st) (course mk) = Inr None"
  shows "promoStep en req st mk ks p s =
           (Inl (BadRequest (''promotion '' @ pid @ '' is not valid'')), s)"
  using assms by (simp add: promoStep_def)

lemma promoStep_staged:
  assumes "promoStep en req st mk ks p s = (r, s')"
  shows "studentRows (staged s') = studentRows (staged s)
         \<and> classRows (staged s') = classRows (staged s)
         \<and> creditRows (staged s') = creditRows (staged s)
         \<and> enrollmentRows (staged s') = enrollmentRows (staged s)
         \<and> transactionRows (staged s') = transactionRows (staged s)"
  using assms
  by (auto simp: promoStep_def incrementCounts_def split: option.splits sum.splits if_splits)

lemma creditStep_skip:
  "\<not> (p > 0 \<and> credit req > 0) \<Longrightarrow> creditStep en req uid mk p s = (Inr (p, None), s)"
  by (auto simp: creditStep_def)

lemma creditStep_applied:
  assumes "p > 0" and "credit req > 0" and "fault en CreatePurchaseCredit = None"
  shows "creditStep en req uid mk p s =
           (Inr (p - min (credit req) p,
                 Some (purchaseCredit uid mk (min (credit req) p) (staged s))),
            s\<lparr>staged := (staged s)\<lparr>creditRows := creditRows (staged s) @
                  [purchaseCredit uid mk (min (credit req) p) (staged s)]\<rparr>\<rparr>)"
  using assms by (simp add: creditStep_def applyCredit_def Let_def)

lemma creditStep_staged:
  assumes "creditStep en req uid mk p s = (r, s')"
  shows "studentRows (staged s') = studentRows (staged s)
         \<and> classRows (staged s') = classRows (staged s)
         \<and> promotionRows (staged s') = promotionRows (staged s)
         \<and> enrollmentRows (staged s') = enrollmentRows (staged s)
         \<and> transactionRows (staged s') = transactionRows (staged s)"
  using assms by (auto simp: creditStep_def Let_def split: option.splits if_splits)

lemma referralStep_staged:
  assumes "referralStep en st mk p s = (r, s')"
  shows "classRows (staged s') = classRows (staged s)
         \<and> promotionRows (staged s') = promotionRows (staged s)
         \<and> enrollmentRows (staged s') = enrollmentRows (staged s)
         \<and> transactionRows (staged s') = transactionRows (staged s)"
  using assms
  by (auto simp: referralStep_def setPaid_def Let_def split: option.splits if_splits)

lemma bulkCreate_staged:
  assumes "bulkCreate en req st ks pr cr s = (r, s')"
  shows "studentRows (staged s') = studentRows (staged s)
         \<and> classRows (staged s') = classRows (staged s)
         \<and> promotionRows (staged s') = promotionRows (staged s)
         \<and> creditRows (staged s') = creditRows (staged s)
         \<and> transactionRows (staged s') = transactionRows (staged s)"
  using assms by (auto simp: bulkCreate_def Let_def split: option.splits)

lemma bulkCreate_Inr:
  assumes "bulkCreate en req st ks pr cr s = (Inr ens, s')"
  shows "ens = newEnrollments req st ks pr cr
         \<and> enrollmentRows (staged s') = enrollmentRows (staged s) @ ens"
  using assms by (auto simp: bulkCreate_def Let_def split: option.splits)

lemma chargeStep_staged:
  assumes "chargeStep en req p ens s = (r, s')"
  shows "studentRows (staged s') = studentRows (staged s)
         \<and> classRows (staged s') = classRows (staged s)
         \<and> promotionRows (staged s') = promotionRows (staged s)
         \<and> creditRows (staged s') = creditRows (staged s)
         \<and> enrollmentRows (staged s') = enrollmentRows (staged s)"
  using assms
  by (auto simp: chargeStep_def Let_def split: option.splits sum.splits if_splits)

lemma chargeStep_free:
  "p \<le> 0 \<Longrightarrow> chargeStep en req p ens s = (Inr (), s)"
  by (simp add: chargeStep_def)

lemma pricingSteps_staged:
  assumes "pricingSteps en req uid st mk ks s = (r, s')"
  shows "studentRows (staged s') = studentRows (staged s)
         \<and> classRows (staged s') = classRows (staged s)
         \<and> enrollmentRows (staged s') = enrollmentRows (staged s)
         \<and> transactionRows (staged s') = transactionRows (staged s)"
  using assms unfolding pricingSteps_def
  by (auto elim!: thenE_cases dest!: promoStep_staged creditStep_staged split: prod.splits)

lemma txBody_Inr:
  assumes "txBody en req uid st mk ks s = (Inr ens, s')"
  obtains p pr cr s1 s2 s3 where
    "pricingSteps en req uid st mk ks s = (Inr (p, pr, cr), s1)"
    "referralStep en st mk p s1 = (Inr (), s2)"
    "bulkCreate en req st ks pr cr s2 = (Inr ens, s3)"
    "chargeStep en req p ens s3 = (Inr (), s')"
  using assms unfolding txBody_def
  by (auto elim!: thenE_cases split: prod.splits)

lemma txBody_enrollments:
  assumes "txBody en req uid st mk ks s = (Inr ens, s')"
  shows "enrollmentRows (staged s') = enrollmentRows (staged s) @ ens
         \<and> map enrClassId ens = map klassId ks
         \<and> classRows (staged s') = classRows (staged s)"
proof -
  from assms obtain p pr cr s1 s2 s3 where
    a: "pricingSteps en req uid st mk ks s = (Inr (p, pr, cr), s1)" and
    b: "referralStep en st mk p s1 = (Inr (), s2)" and
    c: "bulkCreate en req st ks pr cr s2 = (Inr ens, s3)" and
    d: "chargeStep en req p ens s3 = (Inr (), s')"
    by (rule txBody_Inr)
  have "map enrClassId ens = map klassId ks"
    using bulkCreate_Inr[OF c] by (simp add: newEnrollments_def comp_def)
  then show ?thesis
    using pricingSteps_staged[OF a] referralStep_staged[OF b] bulkCreate_Inr[OF c]
      bulkCreate_staged[OF c] chargeStep_staged[OF d]
    by simp
qed

section \<open>A request without credit\<close>

lemma referralStep_credits:
  assumes "referralStep en st mk p s = (r, s')"
  shows "\<exists>rs. creditRows (staged s') = creditRows (staged s) @ rs
              \<and> (\<forall>x\<in>set rs. creditType x = Referral)"
proof -
  have "creditRows (staged s') = creditRows (staged s) @ []
        \<or> (\<exists>referer. creditRows (staged s') = creditRows (staged s) @
              [referralCredit en st mk referer (setPaid (accountId (parent st)) (staged s))])"
    using assms
    by (auto simp: referralStep_def setPaid_def Let_def split: option.splits if_splits)
  then show ?thesis
  proof
    assume "creditRows (staged s') = creditRows (staged s) @ []"
    then show ?thesis by (intro exI[of _ "[]"]) simp
  next
    assume "\<exists>referer. creditRows (staged s') = creditRows (staged s) @
              [referralCredit en st mk referer (setPaid (accountId (parent st)) (staged s))]"
    then obtain referer where "creditRows (staged s') = creditRows (staged s) @
              [referralCredit en st mk referer (setPaid (accountId (parent st)) (staged s))]"
      by blast
    then show ?thesis
      by (intro exI[of _ "[referralCredit en st mk referer
            (setPaid (accountId (parent st)) (staged s))]"]) (simp add: referralCredit_def)
  qed
qed

lemma pricingSteps_no_credit:
  assumes "credit req \<le> 0" and "pricingSteps en req uid st mk ks s = (Inr (p, pr, cr), s')"
  shows "cr = None \<and> creditRows (staged s') = creditRows (staged s)"
proof -
  from assms(2) obtain p1 s1 where
    a: "promoStep en req st mk ks (totalPrice en req ks) s = (Inr (p1, pr), s1)" and
    b: "creditStep en req uid mk p1 s1 = (Inr (p, cr), s')"
    unfolding pricingSteps_def by (auto elim!: thenE_cases split: prod.splits)
  from assms(1) have "creditStep en req uid mk p1 s1 = (Inr (p1, None), s1)"
    by (simp add: creditStep_skip)
  with b have "cr = None" "s' = s1" by simp_all
  with promoStep_staged[OF a] show ?thesis by simp
qed

lemma txBody_no_purchase_credit:
  assumes "credit req \<le> 0" and "txBody en req uid st mk ks s = (Inr ens, s')"
  shows "filter (\<lambda>r. creditType r = Purchase) (creditRows (staged s')) =
         filter (\<lambda>r. creditType r = Purchase) (creditRows (staged s))
         \<and> (\<forall>e\<in>set ens. enrCreditId e = None)"
proof -
  from assms(2) obtain p pr cr s1 s2 s3 where
    a: "pricingSteps en req uid st mk ks s = (Inr (p, pr, cr), s1)" and
    b: "referralStep en st mk p s1 = (Inr (), s2)" and
    c: "bulkCreate en req st ks pr cr s2 = (Inr ens, s3)" and
    d: "chargeStep en req p ens s3 = (Inr (), s')"
    by (rule txBody_Inr)
  note n = pricingSteps_no_credit[OF assms(1) a]
  from referralStep_credits[OF b] obtain rs where
    rs: "creditRows (staged s2) = creditRows (staged s1) @ rs"
      "\<forall>x\<in>set rs. creditType x = Referral"
    by blast
  have "filter (\<lambda>r. creditType r = Purchase) rs = []"
    using rs(2) by (auto simp: filter_empty_conv)
  then have "filter (\<lambda>r. creditType r = Purchase) (creditRows (staged s')) =
         filter (\<lambda>r. creditType r = Purchase) (creditRows (staged s))"
    using n rs(1) bulkCreate_staged[OF c] chargeStep_staged[OF d] by simp
  moreover have "\<forall>e\<in>set ens. enrCreditId e = None"
    using bulkCreate_Inr[OF c] n by (auto simp: newEnrollments_def)
  ultimately show ?thesis by simp
qed

lemma validate_ignores_balance:
  "credit req \<le> 0 \<Longrightarrow> validate (en\<lparr>getBalanceInCents := g\<rparr>) req w = validate en req w"
  by (auto simp: validate_def split: option.splits sum.splits list.splits)

lemma promoStep_ignores_balance:
  "promoStep (en\<lparr>getBalanceInCents := g\<rparr>) = promoStep en"
  by (intro ext) (auto simp: promoStep_def promoPrice_def split: option.splits sum.splits)

lemma creditStep_ignores_balance:
  "creditStep (en\<lparr>getBalanceInCents := g\<rparr>) = creditStep en"
  by (intro ext) (auto simp: creditStep_def split: option.splits)

lemma referralStep_ignores_balance:
  "referralStep (en\<lparr>getBalanceInCents := g\<rparr>) = referralStep en"
  by (intro ext) (auto simp: referralStep_def referralCredit_def Let_def split: option.splits)

lemma bulkCreate_ignores_balance:
  "bulkCreate (en\<lparr>getBalanceInCents := g\<rparr>) = bulkCreate en"
  by (intro ext) (auto simp: bulkCreate_def split: option.splits)

lemma chargeStep_ignores_balance:
  "chargeStep (en\<lparr>getBalanceInCents := g\<rparr>) = chargeStep en"
  by (intro ext) (auto simp: chargeStep_def Let_def split: option.splits sum.splits)

lemma txBody_ignores_balance:
  "txBody (en\<lparr>getBalanceInCents := g\<rparr>) = txBody en"
  by (intro ext)
    (simp add: txBody_def pricingSteps_def totalPrice_def promoStep_ignores_balance
      creditStep_ignores_balance referralStep_ignores_balance bulkCreate_ignores_balance
      chargeStep_ignores_balance)

lemma runTransaction_ignores_balance:
  "runTransaction (en\<lparr>getBalanceInCents := g\<rparr>) = runTransaction en"
proof -
  have c: "commit (en\<lparr>getBalanceInCents := g\<rparr>) = commit en"
    by (rule ext) (simp add: commit_def)
  have e: "emitEnrollClassEvent (en\<lparr>getBalanceInCents := g\<rparr>) = emitEnrollClassEvent en"
    by (rule ext)+ (simp add: emitEnrollClassEvent_def)
  have r: "catchBlock (en\<lparr>getBalanceInCents := g\<rparr>) = catchBlock en"
    by (intro ext) (simp add: catchBlock_def rollback_def)
  show ?thesis
    by (intro ext)
      (auto simp: runTransaction_def tryBlock_def txBody_ignores_balance c e r
        split: prod.splits sum.splits)
qed

lemma enrollClass_ignores_balance:
  assumes "credit req \<le> 0"
  shows "enrollClass (en\<lparr>getBalanceInCents := g\<rparr>) req w = enrollClass en req w"
  using assms
  by (auto simp: enrollClass_def validate_ignores_balance runTransaction_ignores_balance
      split: sum.splits prod.splits option.splits)

text \<open>
  C10. With a requested credit of zero or less the balance is never looked up (the
  mutation behaves the same whatever the balance lookup would do, even if it would
  fail), validation does not reject the request for lack of credit, the credit step
  hands the price on unchanged without writing anything, and the store holds the same
  Purchase-type credit rows after the request as before.
\<close>

theorem nonpositive_credit_is_ignored:
  assumes "credit req \<le> 0"
  shows "enrollClass (en\<lparr>getBalanceInCents := anyBalance\<rparr>) req w = enrollClass en req w
       \<and> validate en req w \<noteq> Inl (BadRequest ''you do not have enough credit'')
       \<and> creditStep en req uid mainKlass priceInCents s = (Inr (priceInCents, None), s)
       \<and> filter (\<lambda>r. creditType r = Purchase) (creditRows (store (snd (enrollClass en req w)))) =
           filter (\<lambda>r. creditType r = Purchase) (creditRows (store w))"
proof (intro conjI)
  show "enrollClass (en\<lparr>getBalanceInCents := anyBalance\<rparr>) req w = enrollClass en req w"
    using assms by (rule enrollClass_ignores_balance)
next
  show "validate en req w \<noteq> Inl (BadRequest ''you do not have enough credit'')"
    using assms
    by (auto simp: validate_def dest: getStudent_Inl split: option.splits sum.splits list.splits)
next
  show "creditStep en req uid mainKlass priceInCents s = (Inr (priceInCents, None), s)"
    using assms by (simp add: creditStep_skip)
next
  show "filter (\<lambda>r. creditType r = Purchase) (creditRows (store (snd (enrollClass en req w)))) =
           filter (\<lambda>r. creditType r = Purchase) (creditRows (store w))"
  proof (cases rule: enrollClass_cases[of en req w])
    case (invalid e)
    then show ?thesis by simp
  next
    case (unopened uid st ks e)
    then show ?thesis by simp
  next
    case (rolledBack uid st ks mk e s)
    then show ?thesis by simp
  next
    case (uncommitted uid st ks mk ens s e)
    then show ?thesis by simp
  next
    case (unannounced uid st ks mk ens s e)
    with txBody_no_purchase_credit[OF assms unannounced(4)]
    show ?thesis by (simp add: openSession_def)
  next
    case (announced uid st ks mk ens s)
    with txBody_no_purchase_credit[OF assms announced(4)]
    show ?thesis by (simp add: openSession_def)
  qed
qed

theorem nonpositive_credit_is_ignored_witness:
  "credit bobRequest \<le> 0
   \<and> enrollClass (schoolEnv\<lparr>getBalanceInCents := (\<lambda>d a. Inl (Failure ''ledger down''))\<rparr>)
        bobRequest school = enrollClass schoolEnv bobRequest school
   \<and> fst (enrollClass schoolEnv bobRequest school) =
       Inr [\<lparr>enrStudentId = ''s2'', enrClassId = ''c1'', source = [], campaign = [],
             enrPromotionId = None, enrCreditId = None\<rparr>]
   \<and> creditRows (store (snd (enrollClass schoolEnv bobRequest school))) = [giftCredit]
   \<and> gatewayCalls (snd (enrollClass schoolEnv bobRequest school)) =
       [\<lparr>amountCents = 10000, nonce = Some ''tok'', orderId = ''c1s2''\<rparr>]"
proof -
  have c: "credit bobRequest \<le> 0"
    by (simp add: bobRequest_def)
  have "fst (enrollClass schoolEnv bobRequest school) =
       Inr [\<lparr>enrStudentId = ''s2'', enrClassId = ''c1'', source = [], campaign = [],
             enrPromotionId = None, enrCreditId = None\<rparr>]"
    by (simp add: model_defs school_defs)
  moreover have "creditRows (store (snd (enrollClass schoolEnv bobRequest school))) = [giftCredit]"
    by (simp add: model_defs school_defs)
  moreover have "gatewayCalls (snd (enrollClass schoolEnv bobRequest school)) =
       [\<lparr>amountCents = 10000, nonce = Some ''tok'', orderId = ''c1s2''\<rparr>]"
    by (simp add: model_defs school_defs)
  ultimately show ?thesis
    using c nonpositive_credit_is_ignored[OF c, where en = schoolEnv
        and anyBalance = "\<lambda>d a. Inl (Failure ''ledger down'')" and w = school]
    by simp
qed

section \<open>The event after the commit\<close>

text \<open>
  C7. The bus receives at most one event per request, and only in a run whose
  transaction body succeeded and whose commit succeeded; that event is the list of all
  enrollments the run created, the same list the caller gets, and those rows are in the
  committed store. A request that ends in an error (every rolled-back attempt does) has
  sent no event. When the event cannot be sent after a successful commit, the committed
  store keeps the staged writes, the new enrollment rows among them; the caller then
  sees the error of the refused rollback.
\<close>

theorem event_only_after_commit:
  "(busEvents (snd (enrollClass en req w)) = busEvents w
    \<or> (\<exists>ens uid st klasses mainKlass s.
          validate en req w = Inr (uid, st, klasses)
          \<and> txBody en req uid st mainKlass klasses (openSession w) = (Inr ens, s)
          \<and> fault en Commit = None
          \<and> enrollClass en req w =
               (Inr ens, \<lparr>store = staged s, gatewayCalls = gatewayCalls s,
                          busEvents = busEvents w @ [ens]\<rparr>)
          \<and> enrollmentRows (staged s) = enrollmentRows (store w) @ ens))
   \<and> (fst (enrollClass en req w) = Inl e \<longrightarrow>
         busEvents (snd (enrollClass en req w)) = busEvents w)
   \<and> (validate en req w = Inr (uid, st, klasses) \<and> findMainKlass klasses = Some mainKlass
        \<and> fault en BeginTransaction = None
        \<and> txBody en req uid st mainKlass klasses (openSession w) = (Inr ens, s)
        \<and> fault en Commit = None \<and> fault en EmitEvent = Some e \<longrightarrow>
         store (snd (enrollClass en req w)) = staged s
         \<and> enrollmentRows (store (snd (enrollClass en req w))) = enrollmentRows (store w) @ ens
         \<and> busEvents (snd (enrollClass en req w)) = busEvents w
         \<and> fst (enrollClass en req w) =
             Inl (TransactionFinished
               ''Transaction cannot be rolled back because it has been finished with state: commit''))"
proof (intro conjI impI)
  show "busEvents (snd (enrollClass en req w)) = busEvents w
    \<or> (\<exists>ens uid st klasses mainKlass s.
          validate en req w = Inr (uid, st, klasses)
          \<and> txBody en req uid st mainKlass klasses (openSession w) = (Inr ens, s)
          \<and> fault en Commit = None
          \<and> enrollClass en req w =
               (Inr ens, \<lparr>store = staged s, gatewayCalls = gatewayCalls s,
                          busEvents = busEvents w @ [ens]\<rparr>)
          \<and> enrollmentRows (staged s) = enrollmentRows (store w) @ ens)"
  proof (cases rule: enrollClass_cases[of en req w])
    case (announced uid st ks mk ens s)
    from txBody_enrollments[OF announced(4)]
    have "enrollmentRows (staged s) = enrollmentRows (store w) @ ens"
      by (simp add: openSession_def)
    with announced show ?thesis by blast
  qed simp_all
next
  assume "fst (enrollClass en req w) = Inl e"
  then show "busEvents (snd (enrollClass en req w)) = busEvents w"
    by (cases rule: enrollClass_cases[of en req w]) simp_all
next
  assume a: "validate en req w = Inr (uid, st, klasses) \<and> findMainKlass klasses = Some mainKlass
        \<and> fault en BeginTransaction = None
        \<and> txBody en req uid st mainKlass klasses (openSession w) = (Inr ens, s)
        \<and> fault en Commit = None \<and> fault en EmitEvent = Some e"
  then have run: "enrollClass en req w =
      (Inl (TransactionFinished
          ''Transaction cannot be rolled back because it has been finished with state: commit''),
       \<lparr>store = staged s, gatewayCalls = gatewayCalls s, busEvents = busEvents w\<rparr>)"
    by (simp add: enrollClass_valid runTransaction_emit_fails)
  from a txBody_enrollments[of en req uid st mainKlass klasses "openSession w" ens s]
  have rows: "enrollmentRows (staged s) = enrollmentRows (store w) @ ens"
    by (simp add: openSession_def)
  show "store (snd (enrollClass en req w)) = staged s"
    using run by simp
  show "enrollmentRows (store (snd (enrollClass en req w))) = enrollmentRows (store w) @ ens"
    using run rows by simp
  show "busEvents (snd (enrollClass en req w)) = busEvents w"
    using run by simp
  show "fst (enrollClass en req w) =
             Inl (TransactionFinished
               ''Transaction cannot be rolled back because it has been finished with state: commit'')"
    using run by simp
qed

theorem event_only_after_commit_witness:
  "validate busDownEnv bobRequest school = Inr (''u2'', bobsChild, [klassA1])
   \<and> findMainKlass [klassA1] = Some klassA1
   \<and> fault busDownEnv BeginTransaction = None
   \<and> fst (txBody busDownEnv bobRequest ''u2'' bobsChild klassA1 [klassA1] (openSession school)) =
       Inr [\<lparr>enrStudentId = ''s2'', enrClassId = ''c1'', source = [], campaign = [],
             enrPromotionId = None, enrCreditId = None\<rparr>]
   \<and> fault busDownEnv Commit = None
   \<and> fault busDownEnv EmitEvent = Some (Failure ''bus down'')
   \<and> enrollmentRows (store (snd (enrollClass busDownEnv bobRequest school))) =
       [\<lparr>enrStudentId = ''s2'', enrClassId = ''c1'', source = [], campaign = [],
         enrPromotionId = None, enrCreditId = None\<rparr>]
   \<and> busEvents (snd (enrollClass busDownEnv bobRequest school)) = []
   \<and> fst (enrollClass busDownEnv bobRequest school) =
       Inl (TransactionFinished
         ''Transaction cannot be rolled back because it has been finished with state: commit'')
   \<and> busEvents (snd (enrollClass schoolEnv (bobRequest\<lparr>paymentMethodNonce := None\<rparr>) school)) = []
   \<and> busEvents (snd (enrollClass schoolEnv bobRequest school)) =
       [[\<lparr>enrStudentId = ''s2'', enrClassId = ''c1'', source = [], campaign = [],
          enrPromotionId = None, enrCreditId = None\<rparr>]]"
proof -
  let ?E = "[\<lparr>enrStudentId = ''s2'', enrClassId = ''c1'', source = [], campaign = [],
             enrPromotionId = None, enrCreditId = None\<rparr>]"
  let ?T = "txBody busDownEnv bobRequest ''u2'' bobsChild klassA1 [klassA1] (openSession school)"
  have v: "validate busDownEnv bobRequest school = Inr (''u2'', bobsChild, [klassA1])"
    by (simp add: validate_def getStudent_def findAllClasses_def school_defs)
  have m: "findMainKlass [klassA1] = Some klassA1"
    by simp
  have fl: "fault busDownEnv BeginTransaction = None" "fault busDownEnv Commit = None"
    "fault busDownEnv EmitEvent = Some (Failure ''bus down'')"
    by (simp_all add: busDownEnv_def schoolEnv_def)
  have f: "fst ?T = Inr ?E"
    by (simp add: model_defs school_defs)
  then have t: "?T = (Inr ?E, snd ?T)"
    by (simp add: prod_eq_iff)
  have z: "fst (enrollClass schoolEnv (bobRequest\<lparr>paymentMethodNonce := None\<rparr>) school) =
             Inl (Failure ''payment method missing'')"
    by (simp add: model_defs school_defs)
  have ok: "busEvents (snd (enrollClass schoolEnv bobRequest school)) = [?E]"
    by (simp add: model_defs school_defs)
  have sch: "enrollmentRows (store school) = []" "busEvents school = []"
    by (simp_all add: school_defs)
  have pre: "validate busDownEnv bobRequest school = Inr (''u2'', bobsChild, [klassA1])
        \<and> findMainKlass [klassA1] = Some klassA1
        \<and> fault busDownEnv BeginTransaction = None
        \<and> ?T = (Inr ?E, snd ?T)
        \<and> fault busDownEnv Commit = None
        \<and> fault busDownEnv EmitEvent = Some (Failure ''bus down'')"
    using v m fl t by simp
  note third = event_only_after_commit[where en = busDownEnv and req = bobRequest and w = school
      and uid = "''u2''" and st = bobsChild and klasses = "[klassA1]" and mainKlass = klassA1
      and ens = ?E and s = "snd ?T" and e = "Failure ''bus down''",
      THEN conjunct2, THEN conjunct2, rule_format]
  from third[OF pre, THEN conjunct2]
  have "enrollmentRows (store (snd (enrollClass busDownEnv bobRequest school))) = ?E
     \<and> busEvents (snd (enrollClass busDownEnv bobRequest school)) = []
     \<and> fst (enrollClass busDownEnv bobRequest school) =
         Inl (TransactionFinished
           ''Transaction cannot be rolled back because it has been finished with state: commit'')"
    using sch by simp
  moreover
  from event_only_after_commit[where en = schoolEnv
      and req = "bobRequest\<lparr>paymentMethodNonce := None\<rparr>" and w = school
      and e = "Failure ''payment method missing''"] z
  have "busEvents (snd (enrollClass schoolEnv (bobRequest\<lparr>paymentMethodNonce := None\<rparr>) school)) = []"
    using sch by simp
  ultimately show ?thesis
    using v m fl f ok by simp
qed

section \<open>Payment capture\<close>

lemma runTransaction_world:
  assumes "txBody en req uid st mk ks (openSession w) = (r, s)"
  shows "gatewayCalls (snd (runTransaction en req uid st mk ks w)) = gatewayCalls s
         \<and> (store (snd (runTransaction en req uid st mk ks w)) = store w
            \<or> (\<exists>ens. r = Inr ens \<and> fault en Commit = None
                 \<and> store (snd (runTransaction en req uid st mk ks w)) = staged s))"
proof (cases r)
  case (Inl e)
  with assms runTransaction_rollback[of en req uid st mk ks w e s]
  show ?thesis by simp
next
  case (Inr ens)
  show ?thesis
  proof (cases "fault en Commit")
    case (Some e)
    with assms Inr runTransaction_commit_fails[of en req uid st mk ks w ens s e]
    show ?thesis by simp
  next
    case c: None
    show ?thesis
    proof (cases "fault en EmitEvent")
      case (Some e)
      with assms Inr c runTransaction_emit_fails[of en req uid st mk ks w ens s e]
      show ?thesis by simp
    next
      case None
      with assms Inr c runTransaction_success[of en req uid st mk ks w ens s]
      show ?thesis by simp
    qed
  qed
qed

lemma txBody_after_pricing:
  assumes "pricingSteps en req uid st mk ks s = (Inr (p, pr, cr), s1)"
  shows "txBody en req uid st mk ks s =
           thenE (referralStep en st mk p)
             (\<lambda>_. thenE (bulkCreate en req st ks pr cr)
                (\<lambda>enrollments. thenE (chargeStep en req p enrollments)
                   (\<lambda>_ s. (Inr enrollments, s)))) s1"
  using assms by (simp add: txBody_def thenE_def)

lemma txBody_calls_price:
  assumes "pricingSteps en req uid st mk ks s = (Inr (p, pr, cr), s1)"
    and "txBody en req uid st mk ks s = (r, s')"
  shows "gatewayCalls s' = gatewayCalls s
         \<or> (p > 0 \<and> gatewayCalls s' = gatewayCalls s @
               [\<lparr>amountCents = p, nonce = paymentMethodNonce req, orderId = saleOrderId req\<rparr>])"
  using assms(2) pricingSteps_frame[OF assms(1)] unfolding txBody_after_pricing[OF assms(1)]
  by (auto elim!: thenE_cases dest!: referralStep_frame bulkCreate_frame chargeStep_calls
        split: if_splits)

lemma referralStep_keeps:
  assumes "referralStep en st mk p s = (r, s')"
  shows "gatewayCalls s' = gatewayCalls s
         \<and> transactionRows (staged s') = transactionRows (staged s)"
  using referralStep_frame[OF assms] referralStep_staged[OF assms] by simp

lemma bulkCreate_keeps:
  assumes "bulkCreate en req st ks pr cr s = (r, s')"
  shows "gatewayCalls s' = gatewayCalls s
         \<and> transactionRows (staged s') = transactionRows (staged s)"
  using bulkCreate_frame[OF assms] bulkCreate_staged[OF assms] by simp

lemma txBody_free:
  assumes "pricingSteps en req uid st mk ks s = (Inr (p, pr, cr), s1)" and "p \<le> 0"
    and "txBody en req uid st mk ks s = (r, s')"
  shows "gatewayCalls s' = gatewayCalls s
         \<and> transactionRows (staged s') = transactionRows (staged s)"
proof -
  have "gatewayCalls s' = gatewayCalls s1
         \<and> transactionRows (staged s') = transactionRows (staged s1)"
    using assms(3) assms(2) unfolding txBody_after_pricing[OF assms(1)]
    by (auto elim!: thenE_cases dest!: referralStep_keeps bulkCreate_keeps
          simp: chargeStep_free)
  then show ?thesis
    using pricingSteps_frame[OF assms(1)] pricingSteps_staged[OF assms(1)] by simp
qed

lemma referralStep_succeeds:
  assumes "fault en UpdatePaid = None" and "p \<le> 0 \<or> fault en CreateReferralCredit = None"
  shows "\<exists>s'. referralStep en st mk p s = (Inr (), s')"
  using assms by (auto simp: referralStep_def Let_def split: option.splits)

lemma bulkCreate_succeeds:
  assumes "fault en BulkCreate = None"
  shows "\<exists>s'. bulkCreate en req st ks pr cr s = (Inr (newEnrollments req st ks pr cr), s')"
  using assms by (simp add: bulkCreate_def Let_def)

lemma txBody_free_succeeds:
  assumes "pricingSteps en req uid st mk ks s = (Inr (p, pr, cr), s1)" and "p \<le> 0"
    and "fault en UpdatePaid = None" and "fault en BulkCreate = None"
  shows "\<exists>s'. txBody en req uid st mk ks s = (Inr (newEnrollments req st ks pr cr), s')"
proof -
  from referralStep_succeeds[where en = en and p = p and st = st and mk = mk and s = s1] assms(2,3)
  obtain s2 where a: "referralStep en st mk p s1 = (Inr (), s2)" by blast
  from bulkCreate_succeeds[OF assms(4), where req = req and st = st and ks = ks and pr = pr and cr = cr and s = s2]
  obtain s3 where b: "bulkCreate en req st ks pr cr s2 = (Inr (newEnrollments req st ks pr cr), s3)"
    by blast
  have c: "chargeStep en req p (newEnrollments req st ks pr cr) s3 = (Inr (), s3)"
    using assms(2) by (rule chargeStep_free)
  show ?thesis
    unfolding txBody_after_pricing[OF assms(1)] using a b c by (simp add: thenE_def)
qed

text \<open>
  C5. Whatever the request, the gateway receives at most one call from it, and a call
  it receives is for a positive amount. For a valid request whose promotion and credit
  steps leave the price \<open>priceInCents\<close>: a call, if there is one, is for exactly that
  price and the price is positive; when the price is zero (or less) the gateway is not
  called and the store gets no transaction row; and in that case, unless the store or
  the bus rejects an operation, the request succeeds and one enrollment row for each
  selected class is committed.
\<close>

theorem gateway_called_at_most_once:
  "(gatewayCalls (snd (enrollClass en req w)) = gatewayCalls w
    \<or> (\<exists>c. gatewayCalls (snd (enrollClass en req w)) = gatewayCalls w @ [c]
            \<and> amountCents c > 0))
   \<and> (validate en req w = Inr (uid, st, klasses) \<and> findMainKlass klasses = Some mainKlass
       \<and> fault en BeginTransaction = None
       \<and> pricingSteps en req uid st mainKlass klasses (openSession w) =
           (Inr (priceInCents, appliedPromo, usedCredit), priced) \<longrightarrow>
         (gatewayCalls (snd (enrollClass en req w)) = gatewayCalls w
          \<or> (priceInCents > 0
              \<and> gatewayCalls (snd (enrollClass en req w)) = gatewayCalls w @
                   [\<lparr>amountCents = priceInCents, nonce = paymentMethodNonce req,
                     orderId = saleOrderId req\<rparr>]))
         \<and> (priceInCents \<le> 0 \<longrightarrow>
               gatewayCalls (snd (enrollClass en req w)) = gatewayCalls w
               \<and> transactionRows (store (snd (enrollClass en req w))) = transactionRows (store w))
         \<and> (priceInCents \<le> 0 \<and> fault en UpdatePaid = None \<and> fault en BulkCreate = None
             \<and> fault en Commit = None \<and> fault en EmitEvent = None \<longrightarrow>
               fst (enrollClass en req w) =
                 Inr (newEnrollments req st klasses appliedPromo usedCredit)
               \<and> enrollmentRows (store (snd (enrollClass en req w))) =
                   enrollmentRows (store w) @ newEnrollments req st klasses appliedPromo usedCredit
               \<and> map enrClassId (newEnrollments req st klasses appliedPromo usedCredit) =
                   map klassId klasses
               \<and> klasses \<noteq> []))"
proof (intro conjI impI)
  show "gatewayCalls (snd (enrollClass en req w)) = gatewayCalls w
    \<or> (\<exists>c. gatewayCalls (snd (enrollClass en req w)) = gatewayCalls w @ [c]
            \<and> amountCents c > 0)"
  proof (cases rule: enrollClass_cases[of en req w])
    case (rolledBack uid st ks mk e s)
    with txBody_calls[OF rolledBack(4)] show ?thesis by (simp add: openSession_def)
  next
    case (uncommitted uid st ks mk ens s e)
    with txBody_calls[OF uncommitted(4)] show ?thesis by (simp add: openSession_def)
  next
    case (unannounced uid st ks mk ens s e)
    with txBody_calls[OF unannounced(4)] show ?thesis by (simp add: openSession_def)
  next
    case (announced uid st ks mk ens s)
    with txBody_calls[OF announced(4)] show ?thesis by (simp add: openSession_def)
  qed simp_all
next
  assume a: "validate en req w = Inr (uid, st, klasses) \<and> findMainKlass klasses = Some mainKlass
       \<and> fault en BeginTransaction = None
       \<and> pricingSteps en req uid st mainKlass klasses (openSession w) =
           (Inr (priceInCents, appliedPromo, usedCredit), priced)"
  then have run: "enrollClass en req w = runTransaction en req uid st mainKlass klasses w"
    by (simp add: enrollClass_valid)
  from a have pr: "pricingSteps en req uid st mainKlass klasses (openSession w) =
           (Inr (priceInCents, appliedPromo, usedCredit), priced)" by simp
  obtain r s where tx: "txBody en req uid st mainKlass klasses (openSession w) = (r, s)"
    by (cases "txBody en req uid st mainKlass klasses (openSession w)")
  note world = runTransaction_world[OF tx]
  from txBody_calls_price[OF pr tx] world run
  show "gatewayCalls (snd (enrollClass en req w)) = gatewayCalls w
          \<or> (priceInCents > 0
              \<and> gatewayCalls (snd (enrollClass en req w)) = gatewayCalls w @
                   [\<lparr>amountCents = priceInCents, nonce = paymentMethodNonce req,
                     orderId = saleOrderId req\<rparr>])"
    by (simp add: openSession_def)
  {
    assume free: "priceInCents \<le> 0"
    from txBody_free[OF pr free tx] world run
    show "gatewayCalls (snd (enrollClass en req w)) = gatewayCalls w"
      by (simp add: openSession_def)
    from txBody_free[OF pr free tx] world run
    show "transactionRows (store (snd (enrollClass en req w))) = transactionRows (store w)"
      by (auto simp: openSession_def)
  }
  {
    assume b: "priceInCents \<le> 0 \<and> fault en UpdatePaid = None \<and> fault en BulkCreate = None
             \<and> fault en Commit = None \<and> fault en EmitEvent = None"
    let ?ens = "newEnrollments req st klasses appliedPromo usedCredit"
    from b txBody_free_succeeds[OF pr]
    obtain s' where ok: "txBody en req uid st mainKlass klasses (openSession w) = (Inr ?ens, s')"
      by blast
    from b runTransaction_success[OF ok] run
    have res: "enrollClass en req w =
        (Inr ?ens, \<lparr>store = staged s', gatewayCalls = gatewayCalls s',
                    busEvents = busEvents w @ [?ens]\<rparr>)"
      by simp
    from res show "fst (enrollClass en req w) = Inr ?ens" by simp
    from res txBody_enrollments[OF ok]
    show "enrollmentRows (store (snd (enrollClass en req w))) = enrollmentRows (store w) @ ?ens"
      by (simp add: openSession_def)
    from txBody_enrollments[OF ok]
    show "map enrClassId ?ens = map klassId klasses" by simp
    from a validate_nonempty[of en req w uid st klasses]
    show "klasses \<noteq> []" by simp
  }
qed


theorem gateway_called_at_most_once_witness:
  "validate schoolEnv (annRequest\<lparr>classIds := [''t0''], credit := 0\<rparr>) school =
     Inr (''u1'', annsChild, [klassIntro])
   \<and> findMainKlass [klassIntro] = Some klassIntro
   \<and> fault schoolEnv BeginTransaction = None
   \<and> pricingSteps schoolEnv (annRequest\<lparr>classIds := [''t0''], credit := 0\<rparr>) ''u1'' annsChild
         klassIntro [klassIntro] (openSession school) = (Inr (0, None, None), openSession school)
   \<and> gatewayCalls (snd (enrollClass schoolEnv (annRequest\<lparr>classIds := [''t0''], credit := 0\<rparr>)
         school)) = []
   \<and> transactionRows (store (snd (enrollClass schoolEnv
         (annRequest\<lparr>classIds := [''t0''], credit := 0\<rparr>) school))) = []
   \<and> fst (enrollClass schoolEnv (annRequest\<lparr>classIds := [''t0''], credit := 0\<rparr>) school) =
       Inr [\<lparr>enrStudentId = ''s1'', enrClassId = ''t0'', source = [], campaign = ''spring'',
             enrPromotionId = None, enrCreditId = None\<rparr>]
   \<and> enrollmentRows (store (snd (enrollClass schoolEnv
         (annRequest\<lparr>classIds := [''t0''], credit := 0\<rparr>) school))) =
       [\<lparr>enrStudentId = ''s1'', enrClassId = ''t0'', source = [], campaign = ''spring'',
         enrPromotionId = None, enrCreditId = None\<rparr>]
   \<and> gatewayCalls (snd (enrollClass schoolEnv annRequest school)) =
       [\<lparr>amountCents = 7000, nonce = Some ''tok'', orderId = ''c1s1''\<rparr>]"
proof -
  let ?R = "annRequest\<lparr>classIds := [''t0''], credit := 0\<rparr>"
  have pre: "validate schoolEnv ?R school = Inr (''u1'', annsChild, [klassIntro])
      \<and> findMainKlass [klassIntro] = Some klassIntro
      \<and> fault schoolEnv BeginTransaction = None
      \<and> pricingSteps schoolEnv ?R ''u1'' annsChild klassIntro [klassIntro] (openSession school) =
           (Inr (0, None, None), openSession school)"
    by (simp add: model_defs school_defs)
  have fl: "fault schoolEnv UpdatePaid = None" "fault schoolEnv BulkCreate = None"
    "fault schoolEnv Commit = None" "fault schoolEnv EmitEvent = None"
    by (simp_all add: schoolEnv_def)
  have sch: "gatewayCalls school = []" "transactionRows (store school) = []"
    "enrollmentRows (store school) = []"
    by (simp_all add: school_defs)
  have new: "newEnrollments ?R annsChild [klassIntro] None None =
      [\<lparr>enrStudentId = ''s1'', enrClassId = ''t0'', source = [], campaign = ''spring'',
        enrPromotionId = None, enrCreditId = None\<rparr>]"
    by (simp add: newEnrollments_def orEmpty_def school_defs)
  have paidRun: "gatewayCalls (snd (enrollClass schoolEnv annRequest school)) =
       [\<lparr>amountCents = 7000, nonce = Some ''tok'', orderId = ''c1s1''\<rparr>]"
    by (simp add: model_defs school_defs)
  note second = gateway_called_at_most_once[where en = schoolEnv and req = ?R and w = school
      and uid = "''u1''" and st = annsChild and klasses = "[klassIntro]"
      and mainKlass = klassIntro and priceInCents = 0 and appliedPromo = None
      and usedCredit = None and priced = "openSession school", THEN conjunct2, rule_format]
  from second[OF pre, THEN conjunct2] fl sch new
  have "gatewayCalls (snd (enrollClass schoolEnv ?R school)) = []
        \<and> transactionRows (store (snd (enrollClass schoolEnv ?R school))) = []
        \<and> fst (enrollClass schoolEnv ?R school) =
            Inr [\<lparr>enrStudentId = ''s1'', enrClassId = ''t0'', source = [], campaign = ''spring'',
                  enrPromotionId = None, enrCreditId = None\<rparr>]
        \<and> enrollmentRows (store (snd (enrollClass schoolEnv ?R school))) =
            [\<lparr>enrStudentId = ''s1'', enrClassId = ''t0'', source = [], campaign = ''spring'',
              enrPromotionId = None, enrCreditId = None\<rparr>]"
    by (simp add: klassIntro_def)
  with pre paidRun show ?thesis by simp
qed

section \<open>What a successful transaction body has written\<close>

lemma pricingSteps_Inr:
  assumes "pricingSteps en req uid st mk ks s = (Inr (p, pr, cr), s')"
  obtains p1 sp where
    "promoStep en req st mk ks (totalPrice en req ks) s = (Inr (p1, pr), sp)"
    "creditStep en req uid mk p1 sp = (Inr (p, cr), s')"
  using assms unfolding pricingSteps_def
  by (auto elim!: thenE_cases split: prod.splits)

lemma creditStep_Inr:
  assumes "creditStep en req uid mk p1 s = (Inr (p, cr), s')"
  shows "(p1 > 0 \<and> credit req > 0 \<and> p = p1 - min (credit req) p1
          \<and> cr = Some (purchaseCredit uid mk (min (credit req) p1) (staged s))
          \<and> creditRows (staged s') = creditRows (staged s) @
                [purchaseCredit uid mk (min (credit req) p1) (staged s)])
         \<or> (\<not> (p1 > 0 \<and> credit req > 0) \<and> p = p1 \<and> cr = None \<and> s' = s)"
  using assms
  by (auto simp: creditStep_def applyCredit_def Let_def split: option.splits if_splits)

lemma promoStep_Inr:
  assumes "promoStep en req st mk ks p0 s = (Inr (p1, pr), s')"
  shows "(\<exists>pid promo. p0 > 0 \<and> promotionId req = Some pid \<and> pid \<noteq> []
            \<and> getPromotionIfQualified en (store s) pid (parent st) (course mk) = Inr (Some promo)
            \<and> pr = Some promo \<and> p1 = promoPrice en req ks p0 promo
            \<and> s' = s\<lparr>staged := incrementCounts (promoId promo) (staged s)\<rparr>)
         \<or> (\<not> (p0 > 0 \<and> truthy (promotionId req)) \<and> p1 = p0 \<and> pr = None \<and> s' = s)"
  using assms
  by (auto simp: promoStep_def split: option.splits sum.splits if_splits)


lemma referralStep_runs:
  assumes "fault en UpdatePaid = None" and "fault en CreateReferralCredit = None"
  shows "\<exists>s'. referralStep en st mk p s = (Inr (), s')"
  using assms by (simp add: referralStep_succeeds)


lemma txBody_promotions:
  assumes "txBody en req uid st mk ks s = (Inr ens, s')"
    and "promoStep en req st mk ks (totalPrice en req ks) s = (r, sp)"
  shows "promotionRows (staged s') = promotionRows (staged sp)"
proof -
  from assms(1) obtain p pr cr s1 s2 s3 where
    a: "pricingSteps en req uid st mk ks s = (Inr (p, pr, cr), s1)" and
    b: "referralStep en st mk p s1 = (Inr (), s2)" and
    c: "bulkCreate en req st ks pr cr s2 = (Inr ens, s3)" and
    d: "chargeStep en req p ens s3 = (Inr (), s')"
    by (rule txBody_Inr)
  from a obtain p1 sp' where
    e: "promoStep en req st mk ks (totalPrice en req ks) s = (Inr (p1, pr), sp')" and
    f: "creditStep en req uid mk p1 sp' = (Inr (p, cr), s1)"
    by (rule pricingSteps_Inr)
  from e assms(2) have "sp' = sp" by simp
  with creditStep_staged[OF f] referralStep_staged[OF b] bulkCreate_staged[OF c]
    chargeStep_staged[OF d]
  show ?thesis by simp
qed

section \<open>The credit step\<close>

lemma enrollClass_Inr:
  assumes "fst (enrollClass en req w) = Inr ens"
    and "validate en req w = Inr (uid, st, ks)" and "findMainKlass ks = Some mk"
  obtains s where "txBody en req uid st mk ks (openSession w) = (Inr ens, s)"
    "fault en Commit = None"
    "enrollClass en req w =
       (Inr ens, \<lparr>store = staged s, gatewayCalls = gatewayCalls s,
                  busEvents = busEvents w @ [ens]\<rparr>)"
  using assms by (cases rule: enrollClass_cases[of en req w]) auto

text \<open>
  C3, as the code has it. For a request with a positive credit: if the caller is
  authenticated, the student is found and the credit exceeds the balance of the account,
  the request fails with \<open>BadRequest\<close> and the world is untouched. In the credit step,
  with a price \<open>priceInCents\<close> left by the promotion step: when the price is positive, the
  step consumes min(credit, price), hands on price - min(credit, price), which is not
  negative, and stages one Purchase-type credit row of minus the consumed cents for the
  caller; when the price is zero (or less) the step is skipped, the price is handed on
  and nothing is written. In a successful request with a positive price that
  Purchase row is the first credit row the request adds to the committed store, any
  further new row is a Referral row, and every new enrollment refers to it.
\<close>

theorem credit_step_consumes_min:
  assumes "credit req > 0"
  shows
    "(userId req = Some uid \<and> uid \<noteq> [] \<and> getStudent (store w) (studentId req) uid = Inr st
        \<and> getBalanceInCents en (store w) (parent st) = Inr balanceInCents
        \<and> credit req > balanceInCents \<longrightarrow>
      (\<exists>msg. enrollClass en req w = (Inl (BadRequest msg), w)))
   \<and> (priceInCents > 0 \<and> fault en CreatePurchaseCredit = None \<longrightarrow>
        (\<exists>row. creditStep en req uid mainKlass priceInCents s =
                 (Inr (priceInCents - min (credit req) priceInCents, Some row),
                  s\<lparr>staged := (staged s)\<lparr>creditRows := creditRows (staged s) @ [row]\<rparr>\<rparr>)
               \<and> cents row = - min (credit req) priceInCents
               \<and> creditType row = Purchase
               \<and> creditUserId row = uid)
        \<and> 0 \<le> priceInCents - min (credit req) priceInCents)
   \<and> (priceInCents \<le> 0 \<longrightarrow>
        creditStep en req uid mainKlass priceInCents s = (Inr (priceInCents, None), s))
   \<and> (validate en req w = Inr (uid, st, klasses) \<and> findMainKlass klasses = Some mainKlass
        \<and> promoStep en req st mainKlass klasses (totalPrice en req klasses) (openSession w) =
             (Inr (priceInCents, appliedPromo), promoted)
        \<and> priceInCents > 0 \<and> fst (enrollClass en req w) = Inr enrollments \<longrightarrow>
        (\<exists>row others.
            creditRows (store (snd (enrollClass en req w))) = creditRows (store w) @ row # others
            \<and> cents row = - min (credit req) priceInCents
            \<and> creditType row = Purchase
            \<and> creditUserId row = uid
            \<and> (\<forall>x\<in>set others. creditType x = Referral)
            \<and> (\<forall>e\<in>set enrollments. enrCreditId e = Some (creditKey row))))"
proof (intro conjI impI)
  assume a: "userId req = Some uid \<and> uid \<noteq> [] \<and> getStudent (store w) (studentId req) uid = Inr st
        \<and> getBalanceInCents en (store w) (parent st) = Inr balanceInCents
        \<and> credit req > balanceInCents"
  show "\<exists>msg. enrollClass en req w = (Inl (BadRequest msg), w)"
  proof (cases "findAllClasses (store w) (classIds req)")
    case Nil
    with a have "validate en req w = Inl (BadRequest ''invalid classIds'')"
      by (simp add: validate_def)
    then show ?thesis using enrollClass_invalid by blast
  next
    case (Cons k ks)
    with a assms have "validate en req w = Inl (BadRequest ''you do not have enough credit'')"
      by (simp add: validate_def)
    then show ?thesis using enrollClass_invalid by blast
  qed
next
  assume a: "priceInCents > 0 \<and> fault en CreatePurchaseCredit = None"
  let ?row = "purchaseCredit uid mainKlass (min (credit req) priceInCents) (staged s)"
  have "creditStep en req uid mainKlass priceInCents s =
                 (Inr (priceInCents - min (credit req) priceInCents, Some ?row),
                  s\<lparr>staged := (staged s)\<lparr>creditRows := creditRows (staged s) @ [?row]\<rparr>\<rparr>)"
    using a assms by (simp add: creditStep_applied)
  moreover have "cents ?row = - min (credit req) priceInCents" "creditType ?row = Purchase"
    "creditUserId ?row = uid"
    by (simp_all add: purchaseCredit_def)
  ultimately show "\<exists>row. creditStep en req uid mainKlass priceInCents s =
                 (Inr (priceInCents - min (credit req) priceInCents, Some row),
                  s\<lparr>staged := (staged s)\<lparr>creditRows := creditRows (staged s) @ [row]\<rparr>\<rparr>)
               \<and> cents row = - min (credit req) priceInCents
               \<and> creditType row = Purchase
               \<and> creditUserId row = uid"
    by blast
  show "0 \<le> priceInCents - min (credit req) priceInCents"
    by simp
next
  assume "priceInCents \<le> 0"
  then show "creditStep en req uid mainKlass priceInCents s = (Inr (priceInCents, None), s)"
    by (simp add: creditStep_skip)
next
  assume a: "validate en req w = Inr (uid, st, klasses) \<and> findMainKlass klasses = Some mainKlass
        \<and> promoStep en req st mainKlass klasses (totalPrice en req klasses) (openSession w) =
             (Inr (priceInCents, appliedPromo), promoted)
        \<and> priceInCents > 0 \<and> fst (enrollClass en req w) = Inr enrollments"
  then obtain s' where
    tx: "txBody en req uid st mainKlass klasses (openSession w) = (Inr enrollments, s')" and
    run: "enrollClass en req w =
       (Inr enrollments, \<lparr>store = staged s', gatewayCalls = gatewayCalls s',
                  busEvents = busEvents w @ [enrollments]\<rparr>)"
    using enrollClass_Inr[of en req w enrollments uid st klasses mainKlass] by blast
  from tx obtain p pr cr s1 s2 s3 where
    ps: "pricingSteps en req uid st mainKlass klasses (openSession w) = (Inr (p, pr, cr), s1)" and
    rs: "referralStep en st mainKlass p s1 = (Inr (), s2)" and
    bc: "bulkCreate en req st klasses pr cr s2 = (Inr enrollments, s3)" and
    cs: "chargeStep en req p enrollments s3 = (Inr (), s')"
    by (rule txBody_Inr)
  from ps obtain p1 sp where
    pm: "promoStep en req st mainKlass klasses (totalPrice en req klasses) (openSession w) =
           (Inr (p1, pr), sp)" and
    cr: "creditStep en req uid mainKlass p1 sp = (Inr (p, cr), s1)"
    by (rule pricingSteps_Inr)
  from pm a have same: "p1 = priceInCents" "sp = promoted" by simp_all
  let ?row = "purchaseCredit uid mainKlass (min (credit req) priceInCents) (staged promoted)"
  from creditStep_Inr[OF cr] same a assms
  have used: "cr = Some ?row" "creditRows (staged s1) = creditRows (staged promoted) @ [?row]"
    by auto
  from promoStep_staged[OF pm] same
  have "creditRows (staged promoted) = creditRows (store w)"
    by (simp add: openSession_def)
  moreover from referralStep_credits[OF rs] obtain others where
    others: "creditRows (staged s2) = creditRows (staged s1) @ others"
      "\<forall>x\<in>set others. creditType x = Referral"
    by blast
  ultimately have rows: "creditRows (staged s') = creditRows (store w) @ ?row # others"
    using used bulkCreate_staged[OF bc] chargeStep_staged[OF cs] by simp
  have ids: "\<forall>e\<in>set enrollments. enrCreditId e = Some (creditKey ?row)"
    using bulkCreate_Inr[OF bc] used by (auto simp: newEnrollments_def)
  have "cents ?row = - min (credit req) priceInCents" "creditType ?row = Purchase"
    "creditUserId ?row = uid"
    by (simp_all add: purchaseCredit_def)
  with rows others(2) ids run
  show "\<exists>row others.
            creditRows (store (snd (enrollClass en req w))) = creditRows (store w) @ row # others
            \<and> cents row = - min (credit req) priceInCents
            \<and> creditType row = Purchase
            \<and> creditUserId row = uid
            \<and> (\<forall>x\<in>set others. creditType x = Referral)
            \<and> (\<forall>e\<in>set enrollments. enrCreditId e = Some (creditKey row))"
    by (intro exI[of _ ?row] exI[of _ others]) simp
qed

theorem credit_step_consumes_min_witness:
  "credit annRequest > 0
   \<and> getBalanceInCents schoolEnv (store school) (parent annsChild) = Inr 5000
   \<and> credit (annRequest\<lparr>credit := 5001\<rparr>) > 5000
   \<and> (\<exists>msg. enrollClass schoolEnv (annRequest\<lparr>credit := 5001\<rparr>) school =
               (Inl (BadRequest msg), school))
   \<and> fault schoolEnv CreatePurchaseCredit = None
   \<and> (\<exists>row. fst (creditStep schoolEnv annRequest ''u1'' klassA1 10000 (openSession school)) =
               Inr (7000, Some row)
             \<and> cents row = - 3000 \<and> creditType row = Purchase \<and> creditUserId row = ''u1'')
   \<and> creditStep schoolEnv annRequest ''u1'' klassIntro 0 (openSession school) =
        (Inr (0, None), openSession school)
   \<and> map cents (creditRows (store (snd (enrollClass schoolEnv annRequest school)))) =
        [5000, - 3000, 2000]
   \<and> map creditType (creditRows (store (snd (enrollClass schoolEnv annRequest school)))) =
        [Referral, Purchase, Referral]
   \<and> validate schoolEnv annRequest school = Inr (''u1'', annsChild, [klassA1])
   \<and> findMainKlass [klassA1] = Some klassA1
   \<and> promoStep schoolEnv annRequest annsChild klassA1 [klassA1]
         (totalPrice schoolEnv annRequest [klassA1]) (openSession school) =
       (Inr (10000, None), openSession school)
   \<and> fst (enrollClass schoolEnv annRequest school) =
       Inr [\<lparr>enrStudentId = ''s1'', enrClassId = ''c1'', source = [], campaign = ''spring'',
             enrPromotionId = None, enrCreditId = Some 1\<rparr>]
   \<and> (\<exists>row others.
          creditRows (store (snd (enrollClass schoolEnv annRequest school))) =
            giftCredit # row # others
          \<and> cents row = - 3000 \<and> creditType row = Purchase \<and> creditUserId row = ''u1''
          \<and> enrCreditId \<lparr>enrStudentId = ''s1'', enrClassId = ''c1'', source = [],
                campaign = ''spring'', enrPromotionId = None, enrCreditId = Some 1\<rparr> =
              Some (creditKey row))"
proof -
  have c: "credit annRequest > 0" "credit (annRequest\<lparr>credit := 5001\<rparr>) > 0"
    by (simp_all add: annRequest_def)
  have over: "userId (annRequest\<lparr>credit := 5001\<rparr>) = Some ''u1'' \<and> ''u1'' \<noteq> []
      \<and> getStudent (store school) (studentId (annRequest\<lparr>credit := 5001\<rparr>)) ''u1'' = Inr annsChild
      \<and> getBalanceInCents schoolEnv (store school) (parent annsChild) = Inr 5000
      \<and> credit (annRequest\<lparr>credit := 5001\<rparr>) > 5000"
    by (simp add: getStudent_def school_defs)
  note first = credit_step_consumes_min[OF c(2), where en = schoolEnv and w = school
      and uid = "''u1''" and st = annsChild and balanceInCents = 5000,
      THEN conjunct1, rule_format, OF over]
  have step: "10000 > (0::int) \<and> fault schoolEnv CreatePurchaseCredit = None"
    by (simp add: schoolEnv_def)
  note second = credit_step_consumes_min[OF c(1), where en = schoolEnv
      and uid = "''u1''" and mainKlass = klassA1 and priceInCents = 10000
      and s = "openSession school",
      THEN conjunct2, THEN conjunct1, rule_format, OF step, THEN conjunct1]
  have amounts: "min (credit annRequest) 10000 = 3000"
    by (simp add: annRequest_def)
  from second amounts
  have applied: "\<exists>row. fst (creditStep schoolEnv annRequest ''u1'' klassA1 10000 (openSession school)) =
               Inr (7000, Some row)
             \<and> cents row = - 3000 \<and> creditType row = Purchase \<and> creditUserId row = ''u1''"
    by auto
  have free: "creditStep schoolEnv annRequest ''u1'' klassIntro 0 (openSession school) =
        (Inr (0, None), openSession school)"
    using credit_step_consumes_min[OF c(1), where priceInCents = 0] by simp
  have rows: "map cents (creditRows (store (snd (enrollClass schoolEnv annRequest school)))) =
        [5000, - 3000, 2000]"
    "map creditType (creditRows (store (snd (enrollClass schoolEnv annRequest school)))) =
        [Referral, Purchase, Referral]"
    by (simp_all add: model_defs school_defs)
  let ?E = "[\<lparr>enrStudentId = ''s1'', enrClassId = ''c1'', source = [], campaign = ''spring'',
             enrPromotionId = None, enrCreditId = Some 1\<rparr>]"
  have whole: "validate schoolEnv annRequest school = Inr (''u1'', annsChild, [klassA1])
      \<and> findMainKlass [klassA1] = Some klassA1
      \<and> promoStep schoolEnv annRequest annsChild klassA1 [klassA1]
            (totalPrice schoolEnv annRequest [klassA1]) (openSession school) =
          (Inr (10000, None), openSession school)
      \<and> (10000::int) > 0
      \<and> fst (enrollClass schoolEnv annRequest school) = Inr ?E"
    by (simp add: model_defs school_defs)
  note fourth = credit_step_consumes_min[OF c(1), where en = schoolEnv and w = school
      and uid = "''u1''" and st = annsChild and klasses = "[klassA1]" and mainKlass = klassA1
      and priceInCents = 10000 and appliedPromo = None and promoted = "openSession school"
      and enrollments = ?E,
      THEN conjunct2, THEN conjunct2, THEN conjunct2, rule_format, OF whole]
  from fourth amounts
  have committed: "\<exists>row others.
          creditRows (store (snd (enrollClass schoolEnv annRequest school))) =
            giftCredit # row # others
          \<and> cents row = - 3000 \<and> creditType row = Purchase \<and> creditUserId row = ''u1''
          \<and> enrCreditId \<lparr>enrStudentId = ''s1'', enrClassId = ''c1'', source = [],
                campaign = ''spring'', enrPromotionId = None, enrCreditId = Some 1\<rparr> =
              Some (creditKey row)"
    by (auto simp: school_def schoolDb_def)
  from c over first step applied free rows whole committed show ?thesis
    by simp
qed

text \<open>
  C3 as stated does not hold for a price of zero: a trial class with a positive credit
  within the balance is enrolled, and no Purchase-type credit row is created.
\<close>

theorem credit_on_free_class_counterexample:
  "credit (annRequest\<lparr>classIds := [''t0''], credit := 100\<rparr>) > 0
   \<and> getBalanceInCents schoolEnv (store school) ann = Inr 5000
   \<and> totalPrice schoolEnv (annRequest\<lparr>classIds := [''t0''], credit := 100\<rparr>) [klassIntro] = 0
   \<and> fst (enrollClass schoolEnv (annRequest\<lparr>classIds := [''t0''], credit := 100\<rparr>) school) =
       Inr [\<lparr>enrStudentId = ''s1'', enrClassId = ''t0'', source = [], campaign = ''spring'',
             enrPromotionId = None, enrCreditId = None\<rparr>]
   \<and> creditRows (store (snd (enrollClass schoolEnv
         (annRequest\<lparr>classIds := [''t0''], credit := 100\<rparr>) school))) = [giftCredit]
   \<and> creditType giftCredit \<noteq> Purchase"
  by (simp add: model_defs school_defs)

section \<open>Paid flag and referral credit\<close>







section \<open>The promotion step\<close>

lemma txBody_promo_rejected:
  assumes "totalPrice en req ks > 0" and "promotionId req = Some pid" and "pid \<noteq> []"
    and "getPromotionIfQualified en (store s) pid (parent st) (course mk) = Inr None"
  shows "txBody en req uid st mk ks s =
           (Inl (BadRequest (''promotion '' @ pid @ '' is not valid'')), s)"
  using promoStep_not_qualified[OF assms, of ks]
  by (simp add: txBody_def pricingSteps_def thenE_def)

lemma txBody_promo_counted:
  assumes "totalPrice en req ks > 0" and "promotionId req = Some pid" and "pid \<noteq> []"
    and "getPromotionIfQualified en (store s) pid (parent st) (course mk) = Inr (Some promo)"
    and "txBody en req uid st mk ks s = (Inr ens, s')"
  shows "promotionRows (staged s') = promotionRows (incrementCounts (promoId promo) (staged s))"
proof -
  obtain r sp where pm: "promoStep en req st mk ks (totalPrice en req ks) s = (r, sp)"
    by (cases "promoStep en req st mk ks (totalPrice en req ks) s")
  from assms(5) obtain p pr cr s1 where
    "pricingSteps en req uid st mk ks s = (Inr (p, pr, cr), s1)"
    by (rule txBody_Inr)
  then obtain p1 sp' where
    "promoStep en req st mk ks (totalPrice en req ks) s = (Inr (p1, pr), sp')"
    by (rule pricingSteps_Inr)
  with pm have ok: "promoStep en req st mk ks (totalPrice en req ks) s = (Inr (p1, pr), sp)"
    by simp
  from promoStep_Inr[OF ok] assms(1-4)
  have "sp = s\<lparr>staged := incrementCounts (promoId promo) (staged s)\<rparr>"
    by auto
  with txBody_promotions[OF assms(5) pm] show ?thesis by simp
qed

lemma txBody_promo_ignored:
  assumes "\<not> (totalPrice en req ks > 0 \<and> truthy (promotionId req))"
    and "txBody en req uid st mk ks s = (Inr ens, s')"
  shows "promotionRows (staged s') = promotionRows (staged s)"
  using txBody_promotions[OF assms(2) promoStep_skip[OF assms(1)]] by simp

text \<open>
  C4, as the code has it. For a valid request whose transaction has been opened: when
  a promotion id is supplied and the computed total price is positive, a promotion that
  the lookup does not return (absent or not eligible for the account and the main
  course) makes the request fail and leaves the world untouched, with \<open>BadRequest\<close>
  as the error (or with the rollback's own error, should the rollback reject);
  a promotion that the lookup returns has its \<^verbatim>\<open>counts\<close> raised by exactly one in the
  committed store when the transaction body succeeds and the commit succeeds, and
  otherwise the committed store is the one before the request. When no promotion id is
  supplied or the total price is zero, the promotion rows of the store are not touched.
\<close>

theorem supplied_promotion_is_checked_and_counted:
  assumes "validate en req w = Inr (uid, st, klasses)"
    and "findMainKlass klasses = Some mainKlass"
    and "fault en BeginTransaction = None"
  shows
    "(promotionId req = Some pid \<and> pid \<noteq> [] \<and> totalPrice en req klasses > 0
        \<and> getPromotionIfQualified en (store w) pid (parent st) (course mainKlass) = Inr None \<longrightarrow>
      enrollClass en req w =
        (Inl (case fault en Rollback of
                None \<Rightarrow> BadRequest (''promotion '' @ pid @ '' is not valid'')
              | Some rollbackErr \<Rightarrow> rollbackErr), w))
   \<and> (promotionId req = Some pid \<and> pid \<noteq> [] \<and> totalPrice en req klasses > 0
        \<and> getPromotionIfQualified en (store w) pid (parent st) (course mainKlass) =
             Inr (Some promo) \<longrightarrow>
        ((\<exists>enrollments s. txBody en req uid st mainKlass klasses (openSession w) =
                             (Inr enrollments, s))
          \<and> fault en Commit = None \<longrightarrow>
            promotionRows (store (snd (enrollClass en req w))) =
              map (\<lambda>p. if promoId p = promoId promo then p\<lparr>counts := counts p + 1\<rparr> else p)
                (promotionRows (store w)))
        \<and> (\<not> ((\<exists>enrollments s. txBody en req uid st mainKlass klasses (openSession w) =
                               (Inr enrollments, s))
               \<and> fault en Commit = None) \<longrightarrow>
            store (snd (enrollClass en req w)) = store w))
   \<and> (\<not> (totalPrice en req klasses > 0 \<and> truthy (promotionId req)) \<longrightarrow>
        promotionRows (store (snd (enrollClass en req w))) = promotionRows (store w))"
proof -
  note run = enrollClass_valid[OF assms]
  obtain r s where tx: "txBody en req uid st mainKlass klasses (openSession w) = (r, s)"
    by (cases "txBody en req uid st mainKlass klasses (openSession w)")
  have os: "store (openSession w) = store w" "staged (openSession w) = store w"
    by (simp_all add: openSession_def)
  have committed: "store (snd (enrollClass en req w)) = staged s"
    if "r = Inr ens" "fault en Commit = None" for ens
  proof (cases "fault en EmitEvent")
    case None
    with that tx run runTransaction_success[of en req uid st mainKlass klasses w ens s]
    show ?thesis by simp
  next
    case (Some e)
    with that tx run runTransaction_emit_fails[of en req uid st mainKlass klasses w ens s e]
    show ?thesis by simp
  qed
  have uncommitted: "store (snd (enrollClass en req w)) = store w"
    if "\<not> ((\<exists>ens. r = Inr ens) \<and> fault en Commit = None)"
  proof (cases r)
    case (Inl e)
    with tx run runTransaction_rollback[of en req uid st mainKlass klasses w e s]
    show ?thesis by simp
  next
    case (Inr ens)
    with that obtain e where "fault en Commit = Some e" by auto
    with Inr tx run runTransaction_commit_fails[of en req uid st mainKlass klasses w ens s e]
    show ?thesis by simp
  qed
  show ?thesis
  proof (intro conjI impI)
    assume a: "promotionId req = Some pid \<and> pid \<noteq> [] \<and> totalPrice en req klasses > 0
        \<and> getPromotionIfQualified en (store w) pid (parent st) (course mainKlass) = Inr None"
    then have "txBody en req uid st mainKlass klasses (openSession w) =
           (Inl (BadRequest (''promotion '' @ pid @ '' is not valid'')), openSession w)"
      using txBody_promo_rejected[of en req klasses pid "openSession w" st mainKlass uid] os
      by simp
    from runTransaction_rollback[OF this] run
    show "enrollClass en req w =
        (Inl (case fault en Rollback of
                None \<Rightarrow> BadRequest (''promotion '' @ pid @ '' is not valid'')
              | Some rollbackErr \<Rightarrow> rollbackErr), w)"
      by (simp add: openSession_def)
  next
    assume a: "promotionId req = Some pid \<and> pid \<noteq> [] \<and> totalPrice en req klasses > 0
        \<and> getPromotionIfQualified en (store w) pid (parent st) (course mainKlass) =
             Inr (Some promo)"
    assume b: "(\<exists>enrollments s. txBody en req uid st mainKlass klasses (openSession w) =
                             (Inr enrollments, s))
          \<and> fault en Commit = None"
    with tx obtain ens where r: "r = Inr ens" by auto
    from a tx r os
      txBody_promo_counted[of en req klasses pid "openSession w" st mainKlass promo uid ens s]
    have "promotionRows (staged s) = promotionRows (incrementCounts (promoId promo) (store w))"
      by simp
    with committed[OF r] b
    show "promotionRows (store (snd (enrollClass en req w))) =
              map (\<lambda>p. if promoId p = promoId promo then p\<lparr>counts := counts p + 1\<rparr> else p)
                (promotionRows (store w))"
      by (simp add: incrementCounts_def)
  next
    assume "\<not> ((\<exists>enrollments s. txBody en req uid st mainKlass klasses (openSession w) =
                               (Inr enrollments, s))
               \<and> fault en Commit = None)"
    with tx have "\<not> ((\<exists>ens. r = Inr ens) \<and> fault en Commit = None)" by auto
    then show "store (snd (enrollClass en req w)) = store w"
      by (rule uncommitted)
  next
    assume a: "\<not> (totalPrice en req klasses > 0 \<and> truthy (promotionId req))"
    show "promotionRows (store (snd (enrollClass en req w))) = promotionRows (store w)"
    proof (cases "(\<exists>ens. r = Inr ens) \<and> fault en Commit = None")
      case True
      then obtain ens where r: "r = Inr ens" by blast
      from txBody_promo_ignored[OF a] tx r os
      have "promotionRows (staged s) = promotionRows (store w)" by simp
      with committed[OF r] True show ?thesis by simp
    next
      case False
      then show ?thesis using uncommitted by simp
    qed
  qed
qed

theorem supplied_promotion_is_checked_and_counted_witness:
  "validate schoolEnv (annRequest\<lparr>promotionId := Some ''p1''\<rparr>) school =
     Inr (''u1'', annsChild, [klassA1])
   \<and> findMainKlass [klassA1] = Some klassA1
   \<and> fault schoolEnv BeginTransaction = None
   \<and> totalPrice schoolEnv (annRequest\<lparr>promotionId := Some ''p1''\<rparr>) [klassA1] = 10000
   \<and> getPromotionIfQualified schoolEnv (store school) ''p1'' (parent annsChild) (course klassA1) =
       Inr (Some promoSave)
   \<and> fst (txBody schoolEnv (annRequest\<lparr>promotionId := Some ''p1''\<rparr>) ''u1'' annsChild klassA1
          [klassA1] (openSession school)) =
       Inr [\<lparr>enrStudentId = ''s1'', enrClassId = ''c1'', source = [], campaign = ''spring'',
             enrPromotionId = Some ''p1'', enrCreditId = Some 1\<rparr>]
   \<and> fault schoolEnv Commit = None
   \<and> map counts (promotionRows (store school)) = [3]
   \<and> map counts (promotionRows (store (snd (enrollClass schoolEnv
         (annRequest\<lparr>promotionId := Some ''p1''\<rparr>) school)))) = [4]
   \<and> getPromotionIfQualified schoolEnv (store school) ''bogus'' (parent annsChild)
         (course klassA1) = Inr None
   \<and> enrollClass schoolEnv (annRequest\<lparr>promotionId := Some ''bogus''\<rparr>) school =
       (Inl (BadRequest ''promotion bogus is not valid''), school)
   \<and> fst (txBody schoolEnv (annRequest\<lparr>promotionId := Some ''p1'', paymentMethodNonce := None\<rparr>)
          ''u1'' annsChild klassA1 [klassA1] (openSession school)) =
       Inl (Failure ''payment method missing'')
   \<and> store (snd (enrollClass schoolEnv
         (annRequest\<lparr>promotionId := Some ''p1'', paymentMethodNonce := None\<rparr>) school)) =
       store school
   \<and> validate schoolEnv
         (annRequest\<lparr>classIds := [''t0''], credit := 0, promotionId := Some ''p1''\<rparr>) school =
       Inr (''u1'', annsChild, [klassIntro])
   \<and> findMainKlass [klassIntro] = Some klassIntro
   \<and> totalPrice schoolEnv
         (annRequest\<lparr>classIds := [''t0''], credit := 0, promotionId := Some ''p1''\<rparr>)
         [klassIntro] = 0
   \<and> promotionRows (store (snd (enrollClass schoolEnv
         (annRequest\<lparr>classIds := [''t0''], credit := 0, promotionId := Some ''p1''\<rparr>) school))) =
       promotionRows (store school)"
proof -
  let ?R1 = "annRequest\<lparr>promotionId := Some ''p1''\<rparr>"
  let ?R2 = "annRequest\<lparr>promotionId := Some ''bogus''\<rparr>"
  let ?R3 = "annRequest\<lparr>promotionId := Some ''p1'', paymentMethodNonce := None\<rparr>"
  let ?E = "[\<lparr>enrStudentId = ''s1'', enrClassId = ''c1'', source = [], campaign = ''spring'',
             enrPromotionId = Some ''p1'', enrCreditId = Some 1\<rparr>]"
  let ?T1 = "txBody schoolEnv ?R1 ''u1'' annsChild klassA1 [klassA1] (openSession school)"
  let ?T3 = "txBody schoolEnv ?R3 ''u1'' annsChild klassA1 [klassA1] (openSession school)"
  have v: "validate schoolEnv ?R1 school = Inr (''u1'', annsChild, [klassA1])"
    "validate schoolEnv ?R2 school = Inr (''u1'', annsChild, [klassA1])"
    "validate schoolEnv ?R3 school = Inr (''u1'', annsChild, [klassA1])"
    by (simp_all add: validate_def getStudent_def findAllClasses_def school_defs)
  have m: "findMainKlass [klassA1] = Some klassA1"
    by simp
  have fl: "fault schoolEnv BeginTransaction = None" "fault schoolEnv Commit = None"
    by (simp_all add: schoolEnv_def)
  have price: "totalPrice schoolEnv ?R1 [klassA1] = 10000"
    "totalPrice schoolEnv ?R2 [klassA1] = 10000" "totalPrice schoolEnv ?R3 [klassA1] = 10000"
    by (simp_all add: totalPrice_def school_defs)
  have ids: "promotionId ?R1 = Some ''p1''" "promotionId ?R2 = Some ''bogus''"
    "promotionId ?R3 = Some ''p1''"
    by (simp_all add: annRequest_def)
  have q: "getPromotionIfQualified schoolEnv (store school) ''p1'' (parent annsChild)
             (course klassA1) = Inr (Some promoSave)"
    "getPromotionIfQualified schoolEnv (store school) ''bogus'' (parent annsChild)
             (course klassA1) = Inr None"
    by (simp_all add: school_defs)
  have before: "map counts (promotionRows (store school)) = [3]"
    "promoId promoSave = ''p1''" "promotionRows (store school) = [promoSave]"
    by (simp_all add: school_defs)
  have t1: "fst ?T1 = Inr ?E"
    by (simp add: model_defs school_defs)
  then have "?T1 = (Inr ?E, snd ?T1)"
    by (simp add: prod_eq_iff)
  then have c1: "(\<exists>enrollments s. ?T1 = (Inr enrollments, s)) \<and> fault schoolEnv Commit = None"
    using fl by blast
  have t3: "fst ?T3 = Inl (Failure ''payment method missing'')"
    by (simp add: model_defs school_defs)
  then have c3: "\<not> ((\<exists>enrollments s. ?T3 = (Inr enrollments, s)) \<and> fault schoolEnv Commit = None)"
    by auto
  have pre1: "promotionId ?R1 = Some ''p1'' \<and> ''p1'' \<noteq> [] \<and> totalPrice schoolEnv ?R1 [klassA1] > 0
      \<and> getPromotionIfQualified schoolEnv (store school) ''p1'' (parent annsChild)
             (course klassA1) = Inr (Some promoSave)"
    using ids price q by simp
  have pre2: "promotionId ?R2 = Some ''bogus'' \<and> ''bogus'' \<noteq> []
      \<and> totalPrice schoolEnv ?R2 [klassA1] > 0
      \<and> getPromotionIfQualified schoolEnv (store school) ''bogus'' (parent annsChild)
             (course klassA1) = Inr None"
    using ids price q by simp
  have pre3: "promotionId ?R3 = Some ''p1'' \<and> ''p1'' \<noteq> [] \<and> totalPrice schoolEnv ?R3 [klassA1] > 0
      \<and> getPromotionIfQualified schoolEnv (store school) ''p1'' (parent annsChild)
             (course klassA1) = Inr (Some promoSave)"
    using ids price q by simp
  note counted = supplied_promotion_is_checked_and_counted[OF v(1) m fl(1),
      where pid = "''p1''" and promo = promoSave,
      THEN conjunct2, THEN conjunct1, rule_format, OF pre1, THEN conjunct1, rule_format, OF c1]
  note rejected = supplied_promotion_is_checked_and_counted[OF v(2) m fl(1),
      where pid = "''bogus''", THEN conjunct1, rule_format, OF pre2]
  note undone = supplied_promotion_is_checked_and_counted[OF v(3) m fl(1),
      where pid = "''p1''" and promo = promoSave,
      THEN conjunct2, THEN conjunct1, rule_format, OF pre3, THEN conjunct2, rule_format, OF c3]
  from counted before
  have after: "map counts (promotionRows (store (snd (enrollClass schoolEnv ?R1 school)))) = [4]"
    by (simp add: promoSave_def)
  have nr: "fault schoolEnv Rollback = None"
    by (simp add: schoolEnv_def)
  from rejected nr
  have bad: "enrollClass schoolEnv ?R2 school =
       (Inl (BadRequest ''promotion bogus is not valid''), school)"
    by simp
  let ?R0 = "annRequest\<lparr>classIds := [''t0''], credit := 0, promotionId := Some ''p1''\<rparr>"
  have v0: "validate schoolEnv ?R0 school = Inr (''u1'', annsChild, [klassIntro])"
    by (simp add: validate_def getStudent_def findAllClasses_def school_defs)
  have m0: "findMainKlass [klassIntro] = Some klassIntro"
    by simp
  have free: "totalPrice schoolEnv ?R0 [klassIntro] = 0"
    by (simp add: totalPrice_def school_defs)
  then have pre0: "\<not> (totalPrice schoolEnv ?R0 [klassIntro] > 0 \<and> truthy (promotionId ?R0))"
    by simp
  note ignored = supplied_promotion_is_checked_and_counted[OF v0 m0 fl(1),
      THEN conjunct2, THEN conjunct2, rule_format, OF pre0]
  from v(1) m fl price(1) q t1 before(1) after bad t3 undone v0 m0 free ignored show ?thesis
    by simp
qed

text \<open>
  C4 as stated does not hold for a price of zero: with a trial class, a promotion id
  that matches no promotion is skipped silently and the enrollment succeeds; an
  eligible promotion is not counted although the transaction commits.
\<close>

theorem promotion_skipped_on_free_class_counterexample:
  "promotionId (annRequest\<lparr>classIds := [''t0''], credit := 0, promotionId := Some ''bogus''\<rparr>) =
     Some ''bogus''
   \<and> getPromotionIfQualified schoolEnv (store school) ''bogus'' ann introCourse = Inr None
   \<and> fst (enrollClass schoolEnv
        (annRequest\<lparr>classIds := [''t0''], credit := 0, promotionId := Some ''bogus''\<rparr>) school) =
       Inr [\<lparr>enrStudentId = ''s1'', enrClassId = ''t0'', source = [], campaign = ''spring'',
             enrPromotionId = None, enrCreditId = None\<rparr>]
   \<and> getPromotionIfQualified schoolEnv (store school) ''p1'' ann introCourse = Inr (Some promoSave)
   \<and> fst (enrollClass schoolEnv
        (annRequest\<lparr>classIds := [''t0''], credit := 0, promotionId := Some ''p1''\<rparr>) school) =
       Inr [\<lparr>enrStudentId = ''s1'', enrClassId = ''t0'', source = [], campaign = ''spring'',
             enrPromotionId = None, enrCreditId = None\<rparr>]
   \<and> map counts (promotionRows (store (snd (enrollClass schoolEnv
        (annRequest\<lparr>classIds := [''t0''], credit := 0, promotionId := Some ''p1''\<rparr>) school)))) =
       [3]
   \<and> map counts (promotionRows (store school)) = [3]"
  by (simp add: model_defs school_defs)

section \<open>Class ids without a class\<close>

lemma validate_passes:
  assumes "userId req = Some uid" and "uid \<noteq> []"
    and "getStudent (store w) (studentId req) uid = Inr st"
    and "findAllClasses (store w) (classIds req) \<noteq> []"
    and "credit req \<le> 0 \<or> (\<exists>b. getBalanceInCents en (store w) (parent st) = Inr b \<and> credit req \<le> b)"
  shows "validate en req w = Inr (uid, st, findAllClasses (store w) (classIds req))"
  using assms
  by (cases "findAllClasses (store w) (classIds req)") (auto simp: validate_def)

lemma promoStep_succeeds:
  assumes "\<forall>pid. promotionId req = Some pid \<longrightarrow>
             (\<exists>promo. getPromotionIfQualified en (store s) pid (parent st) (course mk) =
                        Inr (Some promo))"
    and "fault en IncrementCounts = None"
  shows "\<exists>p pr s'. promoStep en req st mk ks p0 s = (Inr (p, pr), s')"
proof (cases "promotionId req")
  case None
  then show ?thesis by (simp add: promoStep_def)
next
  case (Some pid)
  with assms(1) obtain promo where
    "getPromotionIfQualified en (store s) pid (parent st) (course mk) = Inr (Some promo)"
    by blast
  with Some assms(2) show ?thesis by (simp add: promoStep_def)
qed

lemma creditStep_succeeds:
  assumes "fault en CreatePurchaseCredit = None"
  shows "\<exists>p cr s'. creditStep en req uid mk p1 s = (Inr (p, cr), s')"
  using assms by (simp add: creditStep_def Let_def)

lemma chargeStep_succeeds:
  assumes "\<forall>amount. \<exists>d. sale en amount (paymentMethodNonce req) (saleOrderId req) = Inr d"
    and "fault en CreateTransaction = None" and "fault en AddEnrollments = None"
  shows "\<exists>s'. chargeStep en req p ens s = (Inr (), s')"
proof -
  from assms(1) obtain d where
    "sale en p (paymentMethodNonce req) (saleOrderId req) = Inr d" by blast
  with assms(2,3) show ?thesis by (simp add: chargeStep_def Let_def)
qed

lemma txBody_succeeds:
  assumes "\<forall>pid. promotionId req = Some pid \<longrightarrow>
             (\<exists>promo. getPromotionIfQualified en (store s) pid (parent st) (course mk) =
                        Inr (Some promo))"
    and "\<forall>amount. \<exists>d. sale en amount (paymentMethodNonce req) (saleOrderId req) = Inr d"
    and "\<forall>op. op \<noteq> Rollback \<longrightarrow> fault en op = None"
  shows "\<exists>ens s'. txBody en req uid st mk ks s = (Inr ens, s')"
proof -
  from assms(3) have f: "fault en IncrementCounts = None" "fault en CreatePurchaseCredit = None"
    "fault en UpdatePaid = None" "fault en CreateReferralCredit = None"
    "fault en BulkCreate = None" "fault en CreateTransaction = None"
    "fault en AddEnrollments = None"
    by simp_all
  from promoStep_succeeds[OF assms(1) f(1), of ks "totalPrice en req ks"]
  obtain p1 pr sp where
    a: "promoStep en req st mk ks (totalPrice en req ks) s = (Inr (p1, pr), sp)" by blast
  from creditStep_succeeds[OF f(2), of req uid mk p1 sp]
  obtain p cr s1 where b: "creditStep en req uid mk p1 sp = (Inr (p, cr), s1)" by blast
  from referralStep_runs[OF f(3) f(4), of st mk p s1]
  obtain s2 where c: "referralStep en st mk p s1 = (Inr (), s2)" by blast
  from bulkCreate_succeeds[OF f(5), of req st ks pr cr s2]
  obtain s3 where d: "bulkCreate en req st ks pr cr s2 = (Inr (newEnrollments req st ks pr cr), s3)"
    by blast
  from chargeStep_succeeds[OF assms(2) f(6) f(7), of p "newEnrollments req st ks pr cr" s3]
  obtain s4 where e: "chargeStep en req p (newEnrollments req st ks pr cr) s3 = (Inr (), s4)"
    by blast
  from a b c d e have "txBody en req uid st mk ks s = (Inr (newEnrollments req st ks pr cr), s4)"
    by (simp add: txBody_def pricingSteps_def thenE_def)
  then show ?thesis by blast
qed

lemma findAllClasses_ids:
  "set (map klassId (findAllClasses d ids)) \<subseteq> set ids \<inter> klassId ` set (classRows d)"
  by (auto simp: findAllClasses_def)

lemma findAllClasses_existing:
  "findAllClasses d (filter (\<lambda>i. i \<in> klassId ` set (classRows d)) ids) = findAllClasses d ids"
  unfolding findAllClasses_def by (rule filter_cong) auto

text \<open>
  C9. Class ids that match no class do not make the request fail and get no
  enrollment. Whenever \<^verbatim>\<open>enrollClass\<close> succeeds, the enrollments it returns are, in
  order, one for each class that the lookup found, every one of them for an id that
  was supplied and exists, and they are the rows added to the committed store. When at
  least one supplied id matches a class and nothing else stands in the way (the caller
  is authenticated, the student is found, the credit is within the balance, a supplied
  promotion qualifies, the gateway captures, no store or bus operation rejects), the
  request succeeds with as many enrollments as classes were found. The classes found
  are the same as for the supplied ids without the unmatched ones.
\<close>

theorem missing_class_ids_are_ignored:
  "(fst (enrollClass en req w) = Inr enrollments \<longrightarrow>
      map enrClassId enrollments = map klassId (findAllClasses (store w) (classIds req))
      \<and> set (map enrClassId enrollments) \<subseteq> set (classIds req) \<inter> klassId ` set (classRows (store w))
      \<and> enrollmentRows (store (snd (enrollClass en req w))) = enrollmentRows (store w) @ enrollments)
   \<and> (userId req = Some uid \<and> uid \<noteq> [] \<and> getStudent (store w) (studentId req) uid = Inr st
       \<and> findAllClasses (store w) (classIds req) \<noteq> []
       \<and> (credit req \<le> 0 \<or>
           (\<exists>b. getBalanceInCents en (store w) (parent st) = Inr b \<and> credit req \<le> b))
       \<and> (\<forall>pid c. promotionId req = Some pid \<longrightarrow>
             (\<exists>promo. getPromotionIfQualified en (store w) pid (parent st) c = Inr (Some promo)))
       \<and> (\<forall>amount. \<exists>d. sale en amount (paymentMethodNonce req) (saleOrderId req) = Inr d)
       \<and> (\<forall>op. op \<noteq> Rollback \<longrightarrow> fault en op = None) \<longrightarrow>
         (\<exists>created. fst (enrollClass en req w) = Inr created
            \<and> length created = length (findAllClasses (store w) (classIds req))))
   \<and> findAllClasses (store w)
        (filter (\<lambda>i. i \<in> klassId ` set (classRows (store w))) (classIds req)) =
      findAllClasses (store w) (classIds req)"
proof (intro conjI impI)
  assume a: "fst (enrollClass en req w) = Inr enrollments"
  then obtain uid st ks mk s where
    v: "validate en req w = Inr (uid, st, ks)" and
    tx: "txBody en req uid st mk ks (openSession w) = (Inr enrollments, s)" and
    run: "enrollClass en req w =
       (Inr enrollments, \<lparr>store = staged s, gatewayCalls = gatewayCalls s,
                  busEvents = busEvents w @ [enrollments]\<rparr>)"
    by (cases rule: enrollClass_cases[of en req w]) auto
  from validate_nonempty[OF v] have ks: "findAllClasses (store w) (classIds req) = ks"
    by simp
  from txBody_enrollments[OF tx] ks
  show ids: "map enrClassId enrollments = map klassId (findAllClasses (store w) (classIds req))"
    by simp
  show "set (map enrClassId enrollments) \<subseteq> set (classIds req) \<inter> klassId ` set (classRows (store w))"
    unfolding ids by (rule findAllClasses_ids)
  from txBody_enrollments[OF tx] run
  show "enrollmentRows (store (snd (enrollClass en req w))) = enrollmentRows (store w) @ enrollments"
    by (simp add: openSession_def)
next
  assume a: "userId req = Some uid \<and> uid \<noteq> [] \<and> getStudent (store w) (studentId req) uid = Inr st
       \<and> findAllClasses (store w) (classIds req) \<noteq> []
       \<and> (credit req \<le> 0 \<or>
           (\<exists>b. getBalanceInCents en (store w) (parent st) = Inr b \<and> credit req \<le> b))
       \<and> (\<forall>pid c. promotionId req = Some pid \<longrightarrow>
             (\<exists>promo. getPromotionIfQualified en (store w) pid (parent st) c = Inr (Some promo)))
       \<and> (\<forall>amount. \<exists>d. sale en amount (paymentMethodNonce req) (saleOrderId req) = Inr d)
       \<and> (\<forall>op. op \<noteq> Rollback \<longrightarrow> fault en op = None)"
  let ?ks = "findAllClasses (store w) (classIds req)"
  from a have v: "validate en req w = Inr (uid, st, ?ks)"
    using validate_passes[of req uid w st en] by blast
  from a obtain mk where mk: "findMainKlass ?ks = Some mk"
    using findMainKlass_Some by blast
  from a have promo: "\<forall>pid. promotionId req = Some pid \<longrightarrow>
             (\<exists>promo. getPromotionIfQualified en (store (openSession w)) pid (parent st)
                         (course mk) = Inr (Some promo))"
    by (simp add: openSession_def)
  from a have sl: "\<forall>amount. \<exists>d. sale en amount (paymentMethodNonce req) (saleOrderId req) = Inr d"
    and nf: "\<forall>op. op \<noteq> Rollback \<longrightarrow> fault en op = None"
    by simp_all
  from txBody_succeeds[OF promo sl nf, of uid ?ks]
  obtain ens s where tx: "txBody en req uid st mk ?ks (openSession w) = (Inr ens, s)"
    by blast
  from nf have run: "enrollClass en req w = runTransaction en req uid st mk ?ks w"
    using enrollClass_valid[OF v mk] by simp
  from nf runTransaction_success[OF tx] run
  have "fst (enrollClass en req w) = Inr ens" by simp
  moreover from txBody_enrollments[OF tx] have "length ens = length ?ks"
    using map_eq_imp_length_eq by blast
  ultimately show "\<exists>created. fst (enrollClass en req w) = Inr created
            \<and> length created = length (findAllClasses (store w) (classIds req))"
    by blast
next
  show "findAllClasses (store w)
        (filter (\<lambda>i. i \<in> klassId ` set (classRows (store w))) (classIds req)) =
      findAllClasses (store w) (classIds req)"
    by (rule findAllClasses_existing)
qed


theorem missing_class_ids_are_ignored_witness:
  "userId (annRequest\<lparr>classIds := [''zz'', ''c1'', ''nope'']\<rparr>) = Some ''u1''
   \<and> getStudent (store school) ''s1'' ''u1'' = Inr annsChild
   \<and> findAllClasses (store school) [''zz'', ''c1'', ''nope''] = [klassA1]
   \<and> getBalanceInCents schoolEnv (store school) (parent annsChild) = Inr 5000
   \<and> promotionId (annRequest\<lparr>classIds := [''zz'', ''c1'', ''nope'']\<rparr>) = None
   \<and> (\<exists>created. fst (enrollClass schoolEnv (annRequest\<lparr>classIds := [''zz'', ''c1'', ''nope'']\<rparr>)
                       school) = Inr created
          \<and> length created = 1)
   \<and> fst (enrollClass schoolEnv (annRequest\<lparr>classIds := [''zz'', ''c1'', ''nope'']\<rparr>) school) =
       Inr [\<lparr>enrStudentId = ''s1'', enrClassId = ''c1'', source = [], campaign = ''spring'',
             enrPromotionId = None, enrCreditId = Some 1\<rparr>]
   \<and> enrollmentRows (store (snd (enrollClass schoolEnv
         (annRequest\<lparr>classIds := [''zz'', ''c1'', ''nope'']\<rparr>) school))) =
       [\<lparr>enrStudentId = ''s1'', enrClassId = ''c1'', source = [], campaign = ''spring'',
         enrPromotionId = None, enrCreditId = Some 1\<rparr>]"
proof -
  let ?R = "annRequest\<lparr>classIds := [''zz'', ''c1'', ''nope'']\<rparr>"
  let ?E = "[\<lparr>enrStudentId = ''s1'', enrClassId = ''c1'', source = [], campaign = ''spring'',
             enrPromotionId = None, enrCreditId = Some 1\<rparr>]"
  have facts: "userId ?R = Some ''u1''" "getStudent (store school) ''s1'' ''u1'' = Inr annsChild"
    "findAllClasses (store school) [''zz'', ''c1'', ''nope''] = [klassA1]"
    "getBalanceInCents schoolEnv (store school) (parent annsChild) = Inr 5000"
    "promotionId ?R = None" "credit ?R = 3000" "studentId ?R = ''s1''"
    "classIds ?R = [''zz'', ''c1'', ''nope'']" "enrollmentRows (store school) = []"
    by (simp_all add: getStudent_def findAllClasses_def school_defs)
  have sl: "\<forall>amount. \<exists>d. sale schoolEnv amount (paymentMethodNonce ?R) (saleOrderId ?R) = Inr d"
    by (simp add: schoolEnv_def annRequest_def)
  have nf: "\<forall>op. op \<noteq> Rollback \<longrightarrow> fault schoolEnv op = None"
    by (simp add: schoolEnv_def)
  have pre: "userId ?R = Some ''u1'' \<and> ''u1'' \<noteq> []
       \<and> getStudent (store school) (studentId ?R) ''u1'' = Inr annsChild
       \<and> findAllClasses (store school) (classIds ?R) \<noteq> []
       \<and> (credit ?R \<le> 0 \<or>
           (\<exists>b. getBalanceInCents schoolEnv (store school) (parent annsChild) = Inr b
                \<and> credit ?R \<le> b))
       \<and> (\<forall>pid c. promotionId ?R = Some pid \<longrightarrow>
             (\<exists>promo. getPromotionIfQualified schoolEnv (store school) pid (parent annsChild) c =
                        Inr (Some promo)))
       \<and> (\<forall>amount. \<exists>d. sale schoolEnv amount (paymentMethodNonce ?R) (saleOrderId ?R) = Inr d)
       \<and> (\<forall>op. op \<noteq> Rollback \<longrightarrow> fault schoolEnv op = None)"
    using facts sl nf by simp
  note succeeds = missing_class_ids_are_ignored[where en = schoolEnv and req = ?R and w = school
      and uid = "''u1''" and st = annsChild,
      THEN conjunct2, THEN conjunct1, rule_format, OF pre]
  have run: "fst (enrollClass schoolEnv ?R school) = Inr ?E"
    by (simp add: model_defs school_defs)
  note only = missing_class_ids_are_ignored[where en = schoolEnv and req = ?R and w = school
      and enrollments = ?E, THEN conjunct1, rule_format, OF run, THEN conjunct2, THEN conjunct2]
  from succeeds facts(3,8)
  have one: "\<exists>created. fst (enrollClass schoolEnv ?R school) = Inr created \<and> length created = 1"
    by simp
  from only facts(9)
  have rows: "enrollmentRows (store (snd (enrollClass schoolEnv ?R school))) = ?E"
    by simp
  from facts(1-5) one run rows show ?thesis
    by simp
qed

end
